theory Spec2Isabelle
  imports Complex_Main "HOL-Library.Product_Lexorder" "HOL-Library.Multiset"
begin

section \<open>Python text primitives\<close>

text \<open>
  A Python \<^verbatim>\<open>str\<close> is a sequence of Unicode code points; it is modelled as a list of
  natural numbers.  The character classes below are the ones of Unicode 14 (CPython 3.11):
  \<^verbatim>\<open>str.isspace\<close>, \<^verbatim>\<open>str.isdecimal\<close>, \<^verbatim>\<open>str.isdigit\<close> and the one-to-one part of
  \<^verbatim>\<open>str.lower\<close>.  The context rule of \<^verbatim>\<open>str.lower\<close> for a word-final capital sigma is
  not modelled: U+03A3 always maps to U+03C3.
\<close>

type_synonym ustr = "nat list"

definition in_ranges :: "(nat \<times> nat) list \<Rightarrow> nat \<Rightarrow> bool" where
  "in_ranges rs c = list_ex (\<lambda>(a, b). a \<le> c \<and> c \<le> b) rs"

definition space_ranges :: "(nat \<times> nat) list" where
  "space_ranges = [
   (9, 13), (28, 32), (133, 133), (160, 160), (5760, 5760), (8192, 8202),
   (8232, 8233), (8239, 8239), (8287, 8287), (12288, 12288)]"

definition py_isspace :: "nat \<Rightarrow> bool" where
  "py_isspace c = in_ranges space_ranges c"

text \<open>Blocks of decimal digits: every block starts at a digit zero and is a whole number
  of runs 0..9, so the value of a digit is its offset in the block modulo ten.\<close>

definition decimal_ranges :: "(nat \<times> nat) list" where
  "decimal_ranges = [
   (48, 57), (1632, 1641), (1776, 1785), (1984, 1993), (2406, 2415), (2534, 2543),
   (2662, 2671), (2790, 2799), (2918, 2927), (3046, 3055), (3174, 3183), (3302, 3311),
   (3430, 3439), (3558, 3567), (3664, 3673), (3792, 3801), (3872, 3881), (4160, 4169),
   (4240, 4249), (6112, 6121), (6160, 6169), (6470, 6479), (6608, 6617), (6784, 6793),
   (6800, 6809), (6992, 7001), (7088, 7097), (7232, 7241), (7248, 7257), (42528, 42537),
   (43216, 43225), (43264, 43273), (43472, 43481), (43504, 43513), (43600, 43609), (44016, 44025),
   (65296, 65305), (66720, 66729), (68912, 68921), (69734, 69743), (69872, 69881), (69942, 69951),
   (70096, 70105), (70384, 70393), (70736, 70745), (70864, 70873), (71248, 71257), (71360, 71369),
   (71472, 71481), (71904, 71913), (72016, 72025), (72784, 72793), (73040, 73049), (73120, 73129),
   (92768, 92777), (92864, 92873), (93008, 93017), (120782, 120831), (123200, 123209), (123632, 123641),
   (125264, 125273), (130032, 130041)]"

fun decimal_in :: "(nat \<times> nat) list \<Rightarrow> nat \<Rightarrow> nat option" where
  "decimal_in [] c = None"
| "decimal_in ((a, b) # rs) c = (if a \<le> c \<and> c \<le> b then Some ((c - a) mod 10) else decimal_in rs c)"

definition py_decimal :: "nat \<Rightarrow> nat option" where
  "py_decimal c = decimal_in decimal_ranges c"

text \<open>Characters that \<^verbatim>\<open>isdigit\<close> accepts and \<^verbatim>\<open>int\<close> does not (superscripts, circled
  digits and the like).\<close>

definition digit_extra_ranges :: "(nat \<times> nat) list" where
  "digit_extra_ranges = [
   (178, 179), (185, 185), (4969, 4977), (6618, 6618), (8304, 8304), (8308, 8313),
   (8320, 8329), (9312, 9320), (9332, 9340), (9352, 9360), (9450, 9450), (9461, 9469),
   (9471, 9471), (10102, 10110), (10112, 10120), (10122, 10130), (68160, 68163), (69216, 69224),
   (69714, 69722), (127232, 127242)]"

definition py_isdigit :: "nat \<Rightarrow> bool" where
  "py_isdigit c = (py_decimal c \<noteq> None \<or> in_ranges digit_extra_ranges c)"

text \<open>Lower-case mapping: (first, last, stride, offset).\<close>

definition lower_table :: "(nat \<times> nat \<times> nat \<times> int) list" where
  "lower_table = [
   (65, 90, 1, 32), (192, 214, 1, 32), (216, 222, 1, 32), (256, 302, 2, 1),
   (306, 310, 2, 1), (313, 327, 2, 1), (330, 374, 2, 1), (376, 376, 1, -121),
   (377, 381, 2, 1), (385, 385, 1, 210), (386, 388, 2, 1), (390, 390, 1, 206),
   (391, 391, 1, 1), (393, 394, 1, 205), (395, 395, 1, 1), (398, 398, 1, 79),
   (399, 399, 1, 202), (400, 400, 1, 203), (401, 401, 1, 1), (403, 403, 1, 205),
   (404, 404, 1, 207), (406, 406, 1, 211), (407, 407, 1, 209), (408, 408, 1, 1),
   (412, 412, 1, 211), (413, 413, 1, 213), (415, 415, 1, 214), (416, 420, 2, 1),
   (422, 422, 1, 218), (423, 423, 1, 1), (425, 425, 1, 218), (428, 428, 1, 1),
   (430, 430, 1, 218), (431, 431, 1, 1), (433, 434, 1, 217), (435, 437, 2, 1),
   (439, 439, 1, 219), (440, 440, 1, 1), (444, 444, 1, 1), (452, 452, 1, 2),
   (453, 453, 1, 1), (455, 455, 1, 2), (456, 456, 1, 1), (458, 458, 1, 2),
   (459, 475, 2, 1), (478, 494, 2, 1), (497, 497, 1, 2), (498, 500, 2, 1),
   (502, 502, 1, -97), (503, 503, 1, -56), (504, 542, 2, 1), (544, 544, 1, -130),
   (546, 562, 2, 1), (570, 570, 1, 10795), (571, 571, 1, 1), (573, 573, 1, -163),
   (574, 574, 1, 10792), (577, 577, 1, 1), (579, 579, 1, -195), (580, 580, 1, 69),
   (581, 581, 1, 71), (582, 590, 2, 1), (880, 882, 2, 1), (886, 886, 1, 1),
   (895, 895, 1, 116), (902, 902, 1, 38), (904, 906, 1, 37), (908, 908, 1, 64),
   (910, 911, 1, 63), (913, 929, 1, 32), (931, 939, 1, 32), (975, 975, 1, 8),
   (984, 1006, 2, 1), (1012, 1012, 1, -60), (1015, 1015, 1, 1), (1017, 1017, 1, -7),
   (1018, 1018, 1, 1), (1021, 1023, 1, -130), (1024, 1039, 1, 80), (1040, 1071, 1, 32),
   (1120, 1152, 2, 1), (1162, 1214, 2, 1), (1216, 1216, 1, 15), (1217, 1229, 2, 1),
   (1232, 1326, 2, 1), (1329, 1366, 1, 48), (4256, 4293, 1, 7264), (4295, 4295, 1, 7264),
   (4301, 4301, 1, 7264), (5024, 5103, 1, 38864), (5104, 5109, 1, 8), (7312, 7354, 1, -3008),
   (7357, 7359, 1, -3008), (7680, 7828, 2, 1), (7838, 7838, 1, -7615), (7840, 7934, 2, 1),
   (7944, 7951, 1, -8), (7960, 7965, 1, -8), (7976, 7983, 1, -8), (7992, 7999, 1, -8),
   (8008, 8013, 1, -8), (8025, 8031, 2, -8), (8040, 8047, 1, -8), (8072, 8079, 1, -8),
   (8088, 8095, 1, -8), (8104, 8111, 1, -8), (8120, 8121, 1, -8), (8122, 8123, 1, -74),
   (8124, 8124, 1, -9), (8136, 8139, 1, -86), (8140, 8140, 1, -9), (8152, 8153, 1, -8),
   (8154, 8155, 1, -100), (8168, 8169, 1, -8), (8170, 8171, 1, -112), (8172, 8172, 1, -7),
   (8184, 8185, 1, -128), (8186, 8187, 1, -126), (8188, 8188, 1, -9), (8486, 8486, 1, -7517),
   (8490, 8490, 1, -8383), (8491, 8491, 1, -8262), (8498, 8498, 1, 28), (8544, 8559, 1, 16),
   (8579, 8579, 1, 1), (9398, 9423, 1, 26), (11264, 11311, 1, 48), (11360, 11360, 1, 1),
   (11362, 11362, 1, -10743), (11363, 11363, 1, -3814), (11364, 11364, 1, -10727), (11367, 11371, 2, 1),
   (11373, 11373, 1, -10780), (11374, 11374, 1, -10749), (11375, 11375, 1, -10783), (11376, 11376, 1, -10782),
   (11378, 11378, 1, 1), (11381, 11381, 1, 1), (11390, 11391, 1, -10815), (11392, 11490, 2, 1),
   (11499, 11501, 2, 1), (11506, 11506, 1, 1), (42560, 42604, 2, 1), (42624, 42650, 2, 1),
   (42786, 42798, 2, 1), (42802, 42862, 2, 1), (42873, 42875, 2, 1), (42877, 42877, 1, -35332),
   (42878, 42886, 2, 1), (42891, 42891, 1, 1), (42893, 42893, 1, -42280), (42896, 42898, 2, 1),
   (42902, 42920, 2, 1), (42922, 42922, 1, -42308), (42923, 42923, 1, -42319), (42924, 42924, 1, -42315),
   (42925, 42925, 1, -42305), (42926, 42926, 1, -42308), (42928, 42928, 1, -42258), (42929, 42929, 1, -42282),
   (42930, 42930, 1, -42261), (42931, 42931, 1, 928), (42932, 42946, 2, 1), (42948, 42948, 1, -48),
   (42949, 42949, 1, -42307), (42950, 42950, 1, -35384), (42951, 42953, 2, 1), (42960, 42960, 1, 1),
   (42966, 42968, 2, 1), (42997, 42997, 1, 1), (65313, 65338, 1, 32), (66560, 66599, 1, 40),
   (66736, 66771, 1, 40), (66928, 66938, 1, 39), (66940, 66954, 1, 39), (66956, 66962, 1, 39),
   (66964, 66965, 1, 39), (68736, 68786, 1, 64), (71840, 71871, 1, 32), (93760, 93791, 1, 32),
   (125184, 125217, 1, 34)]"

fun lower_in :: "(nat \<times> nat \<times> nat \<times> int) list \<Rightarrow> nat \<Rightarrow> nat" where
  "lower_in [] c = c"
| "lower_in ((a, b, s, d) # rs) c =
     (if a \<le> c \<and> c \<le> b \<and> (c - a) mod s = 0 then nat (int c + d) else lower_in rs c)"

definition py_lower :: "nat \<Rightarrow> ustr" where
  "py_lower c = (if c = 304 then [105, 775] else [lower_in lower_table c])"

definition str_strip :: "ustr \<Rightarrow> ustr" where
  "str_strip s = rev (dropWhile py_isspace (rev (dropWhile py_isspace s)))"

definition str_lower :: "ustr \<Rightarrow> ustr" where
  "str_lower s = concat (map py_lower s)"

definition str_isdigit :: "ustr \<Rightarrow> bool" where
  "str_isdigit s = (s \<noteq> [] \<and> list_all py_isdigit s)"

text \<open>\<^verbatim>\<open>s.split(maxsplit=1)\<close>: leading white space is skipped, the first token runs to the
  next white space, and the rest (white space skipped in front, kept behind) is the second
  element when it is not empty.\<close>

definition str_split1 :: "ustr \<Rightarrow> ustr list" where
  "str_split1 s =
     (let s1 = dropWhile py_isspace s in
      if s1 = [] then []
      else let tok = takeWhile (\<lambda>c. \<not> py_isspace c) s1;
               r = dropWhile py_isspace (dropWhile (\<lambda>c. \<not> py_isspace c) s1)
           in if r = [] then [tok] else [tok, r])"

text \<open>\<^verbatim>\<open>s.split()\<close>: all white-space separated tokens.\<close>

fun split_ws :: "ustr \<Rightarrow> ustr \<Rightarrow> ustr list" where
  "split_ws cur [] = (if cur = [] then [] else [rev cur])"
| "split_ws cur (c # cs) =
     (if py_isspace c then (if cur = [] then split_ws [] cs else rev cur # split_ws [] cs)
      else split_ws (c # cur) cs)"

definition str_split :: "ustr \<Rightarrow> ustr list" where
  "str_split s = split_ws [] s"

text \<open>\<^verbatim>\<open>str(n)\<close> for an integer.\<close>

fun digits_of_nat :: "nat \<Rightarrow> ustr" where
  "digits_of_nat n = (if n < 10 then [48 + n] else digits_of_nat (n div 10) @ [48 + n mod 10])"

declare digits_of_nat.simps [simp del]

definition py_str_int :: "int \<Rightarrow> ustr" where
  "py_str_int i = (if i < 0 then 45 # digits_of_nat (nat (- i)) else digits_of_nat (nat i))"

text \<open>\<^verbatim>\<open>int(s)\<close>: surrounding white space is dropped, one sign is allowed, then decimal
  digits of any script, with single underscores between digits.  \<open>None\<close> is
  \<^verbatim>\<open>ValueError\<close>.\<close>

fun dec_acc :: "bool \<Rightarrow> nat \<Rightarrow> ustr \<Rightarrow> nat option" where
  "dec_acc prev acc [] = (if prev then Some acc else None)"
| "dec_acc prev acc (c # cs) =
     (if c = 95 then (if prev then dec_acc False acc cs else None)
      else case py_decimal c of
             None \<Rightarrow> None
           | Some d \<Rightarrow> dec_acc True (acc * 10 + d) cs)"

definition py_int :: "ustr \<Rightarrow> int option" where
  "py_int s =
     (case str_strip s of
        [] \<Rightarrow> None
      | c # cs \<Rightarrow>
          if c = 45 then map_option (\<lambda>n. - int n) (dec_acc False 0 cs)
          else if c = 43 then map_option int (dec_acc False 0 cs)
          else map_option int (dec_acc False 0 (c # cs)))"

section \<open>Python values and dictionaries\<close>

text \<open>The values the bot meets in a spreadsheet record: integers and strings.  A record
  is a dictionary from column names to values, kept as an association list in column
  order.\<close>

datatype pyval = PInt int | PStr ustr

type_synonym pydict = "(ustr \<times> pyval) list"

datatype exn = KeyError | AttributeError | ValueError | IndexError | TypeError
  | ZeroDivisionError | GSpreadException

definition asc :: "string \<Rightarrow> ustr" where
  "asc s = map of_char s"

text \<open>\<^verbatim>\<open>str(v)\<close>.\<close>

fun py_str :: "pyval \<Rightarrow> ustr" where
  "py_str (PInt i) = py_str_int i"
| "py_str (PStr s) = s"

text \<open>\<^verbatim>\<open>str(d.get(k))\<close>: a missing key gives \<^verbatim>\<open>None\<close>, printed as \<^verbatim>\<open>'None'\<close>.\<close>

definition str_of_get :: "pydict \<Rightarrow> ustr \<Rightarrow> ustr" where
  "str_of_get d k = (case map_of d k of None \<Rightarrow> asc ''None'' | Some v \<Rightarrow> py_str v)"

text \<open>Truth value of a Python value.\<close>

fun truthy :: "pyval \<Rightarrow> bool" where
  "truthy (PInt i) = (i \<noteq> 0)"
| "truthy (PStr s) = (s \<noteq> [])"

section \<open>The tabular store\<close>

text \<open>
  A worksheet is the list of its rows, the header row first; a cell is the text the sheet
  shows.  \<^verbatim>\<open>get_all_values\<close> returns the rows as they are, \<^verbatim>\<open>row_values(1)\<close> the header,
  \<^verbatim>\<open>append_row\<close> adds a row at the end and \<^verbatim>\<open>update_cell\<close> overwrites one cell (rows and
  columns counted from 1).  \<^verbatim>\<open>get_all_records\<close> pairs the header with every later row,
  converting a cell that reads as an integer (and holds no underscore) to that integer;
  it raises when two header cells are equal.  Cells that read as floating-point numbers
  are left as text.  The store itself never fails: only the exceptions of the bot's own
  code are modelled.
\<close>

type_synonym row = "ustr list"
type_synonym sheet = "row list"

definition numericise :: "ustr \<Rightarrow> pyval" where
  "numericise s =
     (if 95 \<in> set s then PStr s
      else case py_int s of Some i \<Rightarrow> PInt i | None \<Rightarrow> PStr s)"

definition get_all_values :: "sheet \<Rightarrow> sheet" where
  "get_all_values sh = sh"

definition row_values1 :: "sheet \<Rightarrow> row" where
  "row_values1 sh = (case sh of [] \<Rightarrow> [] | h # _ \<Rightarrow> h)"

definition record_of :: "row \<Rightarrow> row \<Rightarrow> pydict" where
  "record_of keys r = zip keys (map numericise (r @ replicate (length keys - length r) []))"

definition get_all_records :: "sheet \<Rightarrow> exn + pydict list" where
  "get_all_records sh =
     (case sh of
        [] \<Rightarrow> Inr []
      | keys # rows \<Rightarrow>
          if distinct keys then Inr (map (record_of keys) rows) else Inl GSpreadException)"

definition append_row :: "row \<Rightarrow> sheet \<Rightarrow> sheet" where
  "append_row r sh = sh @ [r]"

text \<open>\<^verbatim>\<open>update_cell(row, col, value)\<close>; the sheet grows when the cell lies outside it.\<close>

definition set_cell :: "nat \<Rightarrow> ustr \<Rightarrow> row \<Rightarrow> row" where
  "set_cell j v r = (r @ replicate (Suc j - length r) [])[j := v]"

definition update_cell :: "nat \<Rightarrow> nat \<Rightarrow> ustr \<Rightarrow> sheet \<Rightarrow> sheet" where
  "update_cell i j v sh =
     (let sh' = sh @ replicate (i - length sh) []
      in sh'[i - 1 := set_cell (j - 1) v (sh' ! (i - 1))])"

text \<open>The log: one entry for each call of \<^verbatim>\<open>logging\<close> in the ledger functions.\<close>

datatype logrec =
    Fetched_cakes nat
  | Fetched_orders nat
  | User_has_orders int nat
  | Created_order int int
  | Updated_order ustr ustr
  | Order_not_found ustr
  | No_status_column
  | Error_catalog exn
  | Error_orders exn
  | Error_user_orders int exn
  | Error_create exn
  | Error_update ustr exn
  | Error_sort exn
  | Sent_update int ustr
  | Error_notify int

record store =
  orders :: sheet
  cakes :: sheet
  logged :: "logrec list"

definition logging :: "logrec \<Rightarrow> store \<Rightarrow> store" where
  "logging e st = st\<lparr>logged := logged st @ [e]\<rparr>"

section \<open>The order ledger\<close>

definition INITIAL_STATUS :: ustr where
  "INITIAL_STATUS = [1086, 1078, 1080, 1076, 1072, 1077, 1090, 1089, 1103, 32, 1087, 1086,
     1076, 1090, 1074, 1077, 1088, 1078, 1076, 1077, 1085, 1080, 1077, 32, 1072, 1076, 1084,
     1080, 1085, 1080, 1089, 1090, 1088, 1072, 1090, 1086, 1088, 1072]"

text \<open>The arguments of \<^verbatim>\<open>create_new_order\<close>, with the reading of the clock
  (\<^verbatim>\<open>datetime.now().strftime(...)\<close>) made an argument.\<close>

record order_args =
  a_user_id :: int
  a_user_name :: ustr
  a_cake :: pydict
  a_taste :: ustr
  a_size :: ustr
  a_decor :: ustr
  a_now :: ustr

text \<open>Reading the last identifier: \<^verbatim>\<open>1 if len(all_values) < 2 else int(all_values[-1][0]) + 1\<close>.\<close>

definition next_order_id :: "sheet \<Rightarrow> exn + int" where
  "next_order_id all_values =
     (if length all_values < 2 then Inr 1
      else case last all_values of
             [] \<Rightarrow> Inl IndexError
           | c # _ \<Rightarrow> (case py_int c of None \<Rightarrow> Inl ValueError | Some i \<Rightarrow> Inr (i + 1)))"

text \<open>\<^verbatim>\<open>cake['name'].strip()\<close> and \<^verbatim>\<open>str(cake['price']).strip()\<close> (combined\_bot.py,
  user\_bot.py).\<close>

definition cake_name_index :: "pydict \<Rightarrow> exn + ustr" where
  "cake_name_index c =
     (case map_of c (asc ''name'') of
        None \<Rightarrow> Inl KeyError
      | Some (PInt _) \<Rightarrow> Inl AttributeError
      | Some (PStr s) \<Rightarrow> Inr (str_strip s))"

definition cake_price_index :: "pydict \<Rightarrow> exn + ustr" where
  "cake_price_index c =
     (case map_of c (asc ''price'') of
        None \<Rightarrow> Inl KeyError
      | Some v \<Rightarrow> Inr (str_strip (py_str v)))"



text \<open>The body of the \<^verbatim>\<open>try\<close> block of \<^verbatim>\<open>create_new_order\<close>: the row to append and
  the identifier, or the exception raised before \<^verbatim>\<open>append_row\<close>.  The files differ in
  how they print the user (\<^verbatim>\<open>str(user_id).strip()\<close> or \<^verbatim>\<open>str(user_id)\<close>) and read the cake:
  these are the arguments \<open>uid\<close>, \<open>nm\<close> and \<open>pr\<close>.\<close>

definition new_order_row ::
  "(int \<Rightarrow> ustr) \<Rightarrow> (pydict \<Rightarrow> exn + ustr) \<Rightarrow> (pydict \<Rightarrow> exn + ustr) \<Rightarrow> order_args \<Rightarrow> sheet
     \<Rightarrow> exn + (int \<times> row)" where
  "new_order_row uid nm pr a sh =
     (case next_order_id (get_all_values sh) of
        Inl e \<Rightarrow> Inl e
      | Inr order_id \<Rightarrow>
          (case nm (a_cake a) of
             Inl e \<Rightarrow> Inl e
           | Inr cname \<Rightarrow>
               (case pr (a_cake a) of
                  Inl e \<Rightarrow> Inl e
                | Inr cprice \<Rightarrow>
                    Inr (order_id,
                         [py_str_int order_id, uid (a_user_id a),
                          str_strip (a_user_name a), cname, cprice, str_strip (a_taste a),
                          str_strip (a_size a), str_strip (a_decor a), INITIAL_STATUS, a_now a]))))"

definition create_with ::
  "(int \<Rightarrow> ustr) \<Rightarrow> (pydict \<Rightarrow> exn + ustr) \<Rightarrow> (pydict \<Rightarrow> exn + ustr) \<Rightarrow> order_args \<Rightarrow> store
     \<Rightarrow> int option \<times> store" where
  "create_with uid nm pr a st =
     (case new_order_row uid nm pr a (orders st) of
        Inl e \<Rightarrow> (None, logging (Error_create e) st)
      | Inr (order_id, r) \<Rightarrow>
          (Some order_id,
           logging (Created_order order_id (a_user_id a)) (st\<lparr>orders := append_row r (orders st)\<rparr>)))"

text \<open>\<^verbatim>\<open>create_new_order\<close> of combined\_bot.py and user\_bot.py.\<close>

definition create_new_order :: "order_args \<Rightarrow> store \<Rightarrow> int option \<times> store" where
  "create_new_order = create_with (\<lambda>u. str_strip (py_str_int u)) cake_name_index cake_price_index"



definition returned_ids :: "int option list \<Rightarrow> int list" where
  "returned_ids rs = List.map_filter id rs"


text \<open>\<^verbatim>\<open>update_order_status\<close> (the same code in combined\_bot.py, user\_bot.py, o3.py and
  admin\_bot.py): the records and the header are read, the status column is looked up,
  and the rows are scanned from sheet row 2 for the first one whose printed
  \<^verbatim>\<open>OrderID\<close> equals the printed argument.\<close>

fun list_index :: "'a \<Rightarrow> 'a list \<Rightarrow> nat" where
  "list_index x [] = 0"
| "list_index x (y # ys) = (if x = y then 0 else Suc (list_index x ys))"

fun find_order_row :: "ustr \<Rightarrow> nat \<Rightarrow> pydict list \<Rightarrow> nat option" where
  "find_order_row oid idx [] = None"
| "find_order_row oid idx (order # rest) =
     (if str_of_get order (asc ''OrderID'') = oid then Some idx
      else find_order_row oid (Suc idx) rest)"

definition update_order_status :: "pyval \<Rightarrow> ustr \<Rightarrow> store \<Rightarrow> bool \<times> store" where
  "update_order_status order_id new_status st =
     (case get_all_records (orders st) of
        Inl e \<Rightarrow> (False, logging (Error_update (py_str order_id) e) st)
      | Inr all_orders \<Rightarrow>
          let headers = row_values1 (orders st) in
          if asc ''status'' \<notin> set headers then (False, logging No_status_column st)
          else
            let status_col = list_index (asc ''status'') headers + 1 in
            (case find_order_row (py_str order_id) 2 all_orders of
               Some idx \<Rightarrow>
                 (True,
                  logging (Updated_order (py_str order_id) new_status)
                    (st\<lparr>orders := update_cell idx status_col new_status (orders st)\<rparr>))
             | None \<Rightarrow> (False, logging (Order_not_found (py_str order_id)) st)))"

text \<open>The identifiers a stored order can be found by: the printed \<^verbatim>\<open>OrderID\<close> of
  every record.\<close>

definition stored_ids :: "sheet \<Rightarrow> ustr list" where
  "stored_ids sh =
     (case get_all_records sh of
        Inl _ \<Rightarrow> []
      | Inr all_orders \<Rightarrow> map (\<lambda>order. str_of_get order (asc ''OrderID'')) all_orders)"

text \<open>\<^verbatim>\<open>get_catalog_of_cakes\<close>, \<^verbatim>\<open>get_all_orders\<close> and \<^verbatim>\<open>get_all_orders_by_user\<close>.\<close>

definition get_catalog_of_cakes :: "store \<Rightarrow> pydict list \<times> store" where
  "get_catalog_of_cakes st =
     (case get_all_records (cakes st) of
        Inl e \<Rightarrow> ([], logging (Error_catalog e) st)
      | Inr data \<Rightarrow> (data, logging (Fetched_cakes (length data)) st))"

definition get_all_orders :: "store \<Rightarrow> pydict list \<times> store" where
  "get_all_orders st =
     (case get_all_records (orders st) of
        Inl e \<Rightarrow> ([], logging (Error_orders e) st)
      | Inr all_orders \<Rightarrow> (all_orders, logging (Fetched_orders (length all_orders)) st))"

text \<open>\<^verbatim>\<open>str(o.get('user_id', '')).strip()\<close>.\<close>

definition order_user :: "pydict \<Rightarrow> ustr" where
  "order_user rec = (case map_of rec (asc ''user_id'') of None \<Rightarrow> [] | Some v \<Rightarrow> str_strip (py_str v))"

text \<open>user\_bot.py; combined\_bot.py logs every order first (not modelled in the log).\<close>

definition get_all_orders_by_user :: "int \<Rightarrow> store \<Rightarrow> pydict list \<times> store" where
  "get_all_orders_by_user uid st =
     (case get_all_records (orders st) of
        Inl e \<Rightarrow> ([], logging (Error_user_orders uid e) st)
      | Inr all_orders \<Rightarrow>
          let user_orders = filter (\<lambda>rec. order_user rec = str_strip (py_str_int uid)) all_orders
          in (user_orders,
              logging (User_has_orders uid (length user_orders))
                (logging (Fetched_orders (length all_orders)) st)))"

text \<open>o3.py: the argument is printed without \<^verbatim>\<open>strip\<close> and only the result is logged.\<close>

definition o3_get_all_orders_by_user :: "int \<Rightarrow> store \<Rightarrow> pydict list \<times> store" where
  "o3_get_all_orders_by_user uid st =
     (case get_all_records (orders st) of
        Inl e \<Rightarrow> ([], logging (Error_user_orders uid e) st)
      | Inr all_orders \<Rightarrow>
          let user_orders = filter (\<lambda>rec. order_user rec = py_str_int uid) all_orders
          in (user_orders, logging (User_has_orders uid (length user_orders)) st))"

section \<open>Ordering by date\<close>

text \<open>
  \<^verbatim>\<open>datetime.strptime(s, "%Y-%m-%d %H:%M:%S")\<close>.  The format is turned into a regular
  expression, field by field; every field is an alternation tried from the left, a blank
  of the format stands for one or more white-space characters, and the whole text must be
  used up by the first match.  A parser below returns the ways a field can match, in the
  order the regular expression tries them, each with the rest of the text.
\<close>

type_synonym 'a parser = "ustr \<Rightarrow> ('a \<times> ustr) list"

text \<open>\<^verbatim>\<open>\d\<close>: a decimal digit of any script.\<close>

definition any_digit :: "nat parser" where
  "any_digit s = (case s of [] \<Rightarrow> [] | c # cs \<Rightarrow> (case py_decimal c of None \<Rightarrow> [] | Some d \<Rightarrow> [(d, cs)]))"

text \<open>\<^verbatim>\<open>[a-b]\<close> for ASCII digits \<open>a\<close> to \<open>b\<close>.\<close>

definition digit_in :: "nat \<Rightarrow> nat \<Rightarrow> nat parser" where
  "digit_in a b s = (case s of [] \<Rightarrow> [] | c # cs \<Rightarrow> if 48 + a \<le> c \<and> c \<le> 48 + b then [(c - 48, cs)] else [])"

definition lit :: "nat \<Rightarrow> unit parser" where
  "lit x s = (case s of [] \<Rightarrow> [] | c # cs \<Rightarrow> if c = x then [((), cs)] else [])"

definition two :: "nat parser \<Rightarrow> nat parser \<Rightarrow> nat parser" where
  "two p q s = concat (map (\<lambda>(a, r). map (\<lambda>(b, r'). (a * 10 + b, r')) (q r)) (p s))"

definition alt :: "'a parser \<Rightarrow> 'a parser \<Rightarrow> 'a parser" where
  "alt p q s = p s @ q s"

definition after :: "unit parser \<Rightarrow> 'a parser \<Rightarrow> 'a parser" where
  "after p q s = concat (map (\<lambda>(u, r). q r) (p s))"

definition spaces1 :: "unit parser" where
  "spaces1 s = (case s of [] \<Rightarrow> [] | c # cs \<Rightarrow> if py_isspace c then [((), dropWhile py_isspace cs)] else [])"

definition fmt_Y :: "nat parser" where
  "fmt_Y = two (two (two any_digit any_digit) any_digit) any_digit"

definition fmt_m :: "nat parser" where
  "fmt_m = alt (two (digit_in 1 1) (digit_in 0 2)) (alt (two (digit_in 0 0) (digit_in 1 9)) (digit_in 1 9))"

definition fmt_d :: "nat parser" where
  "fmt_d = alt (two (digit_in 3 3) (digit_in 0 1))
          (alt (two (digit_in 1 2) any_digit)
          (alt (two (digit_in 0 0) (digit_in 1 9))
          (alt (digit_in 1 9) (after (lit 32) (digit_in 1 9)))))"

definition fmt_H :: "nat parser" where
  "fmt_H = alt (two (digit_in 2 2) (digit_in 0 3)) (alt (two (digit_in 0 1) any_digit) any_digit)"

definition fmt_M :: "nat parser" where
  "fmt_M = alt (two (digit_in 0 5) any_digit) any_digit"

definition fmt_S :: "nat parser" where
  "fmt_S = alt (two (digit_in 6 6) (digit_in 0 1)) (alt (two (digit_in 0 5) any_digit) any_digit)"

text \<open>A date and time: year, month, day, hour, minute, second, compared in this order.\<close>

type_synonym datetime = "nat \<times> nat \<times> nat \<times> nat \<times> nat \<times> nat"

definition bind :: "'a parser \<Rightarrow> ('a \<Rightarrow> 'b parser) \<Rightarrow> 'b parser" where
  "bind p f s = concat (map (\<lambda>(a, r). f a r) (p s))"

definition ret :: "'a \<Rightarrow> 'a parser" where
  "ret a s = [(a, s)]"

definition fmt_all :: "datetime parser" where
  "fmt_all =
     bind fmt_Y (\<lambda>y. after (lit 45) (bind fmt_m (\<lambda>mo. after (lit 45) (bind fmt_d (\<lambda>d.
       after spaces1 (bind fmt_H (\<lambda>h. after (lit 58) (bind fmt_M (\<lambda>mi. after (lit 58)
         (bind fmt_S (\<lambda>sec. ret (y, mo, d, h, mi, sec))))))))))))"

definition is_leap :: "nat \<Rightarrow> bool" where
  "is_leap y = (y mod 4 = 0 \<and> (y mod 100 \<noteq> 0 \<or> y mod 400 = 0))"

definition days_in_month :: "nat \<Rightarrow> nat \<Rightarrow> nat" where
  "days_in_month y mo =
     (if mo = 2 then (if is_leap y then 29 else 28)
      else if mo \<in> {4, 6, 9, 11} then 30 else 31)"

definition strptime :: "ustr \<Rightarrow> exn + datetime" where
  "strptime s =
     (case fmt_all s of
        [] \<Rightarrow> Inl ValueError
      | ((y, mo, d, h, mi, sec), rest) # _ \<Rightarrow>
          if rest \<noteq> [] then Inl ValueError
          else if y < 1 \<or> days_in_month y mo < d \<or> 59 < sec then Inl ValueError
          else Inr (y, mo, d, h, mi, sec))"

text \<open>The sort keys: \<^verbatim>\<open>strptime(x['date'], ...)\<close> (combined\_bot.py, user\_bot.py) and
  \<^verbatim>\<open>strptime(x.get('date', ''), ...)\<close> (o3.py).\<close>

definition date_key_index :: "pydict \<Rightarrow> exn + datetime" where
  "date_key_index x =
     (case map_of x (asc ''date'') of
        None \<Rightarrow> Inl KeyError
      | Some (PInt _) \<Rightarrow> Inl TypeError
      | Some (PStr s) \<Rightarrow> strptime s)"

definition date_key_get :: "pydict \<Rightarrow> exn + datetime" where
  "date_key_get x =
     (case map_of x (asc ''date'') of
        None \<Rightarrow> strptime []
      | Some (PInt _) \<Rightarrow> Inl TypeError
      | Some (PStr s) \<Rightarrow> strptime s)"

text \<open>\<^verbatim>\<open>sorted(xs, key=..., reverse=True)\<close>: the keys of all elements are computed
  first, the first exception ending the call; the sort is stable, also when reversed.\<close>

fun all_keys :: "('a \<Rightarrow> exn + 'k) \<Rightarrow> 'a list \<Rightarrow> exn + 'k list" where
  "all_keys key [] = Inr []"
| "all_keys key (x # xs) =
     (case key x of
        Inl e \<Rightarrow> Inl e
      | Inr k \<Rightarrow> (case all_keys key xs of Inl e \<Rightarrow> Inl e | Inr ks \<Rightarrow> Inr (k # ks)))"

definition sorted_reverse :: "('a \<Rightarrow> exn + 'k::linorder) \<Rightarrow> 'a list \<Rightarrow> exn + 'a list" where
  "sorted_reverse key xs =
     (case all_keys key xs of
        Inl e \<Rightarrow> Inl e
      | Inr ks \<Rightarrow> Inr (map snd (rev (sort_key fst (rev (zip ks xs))))))"

text \<open>The \<^verbatim>\<open>try\<close> block around the sort, in every handler that lists orders: on any
  exception the list is used as it came.\<close>

definition sort_orders :: "(pydict \<Rightarrow> exn + datetime) \<Rightarrow> pydict list \<Rightarrow> store \<Rightarrow> pydict list \<times> store" where
  "sort_orders key orders_list st =
     (case sorted_reverse key orders_list of
        Inl e \<Rightarrow> (orders_list, logging (Error_sort e) st)
      | Inr sorted_orders \<Rightarrow> (sorted_orders, st))"

section \<open>Pagination\<close>

text \<open>\<^verbatim>\<open>xs[start:end]\<close> for integers of either sign.\<close>

definition slice_bound :: "int \<Rightarrow> int \<Rightarrow> int" where
  "slice_bound n i = (if i < 0 then max 0 (i + n) else min i n)"

definition py_slice :: "'a list \<Rightarrow> int \<Rightarrow> int \<Rightarrow> 'a list" where
  "py_slice xs start stop =
     (let n = int (length xs); s = slice_bound n start; e = slice_bound n stop
      in take (nat (e - s)) (drop (nat s) xs))"

text \<open>The two inline buttons, each with the page it leads to.\<close>

datatype page_button = Back int | Forward int

text \<open>\<^verbatim>\<open>pages = (total + page_size - 1) // page_size\<close>.\<close>

definition page_count :: "'a list \<Rightarrow> int \<Rightarrow> int" where
  "page_count orders_list page_size = (int (length orders_list) + page_size - 1) div page_size"

text \<open>\<^verbatim>\<open>get_orders_page_text_and_markup\<close> (o3.py).  The text is the heading followed by one
  block for each order of the chunk; the model returns the chunk.\<close>

definition get_orders_page_text_and_markup ::
  "pydict list \<Rightarrow> int \<Rightarrow> int \<Rightarrow> exn + (pydict list \<times> page_button list)" where
  "get_orders_page_text_and_markup orders_list page page_size =
     (if page_size = 0 then Inl ZeroDivisionError
      else
        let pages = page_count orders_list page_size;
            start = page * page_size;
            stop = start + page_size;
            chunk = py_slice orders_list start stop;
            buttons = (if page > 0 then [Back (page - 1)] else []) @
                      (if page < pages - 1 then [Forward (page + 1)] else [])
        in Inr (chunk, buttons))"






section \<open>Sessions, messages and replies\<close>

text \<open>
  The states of the two \<^verbatim>\<open>StatesGroup\<close> classes; a session with no state set is idle
  (\<open>None\<close>).  The data of a session are the four fields the handlers store with
  \<^verbatim>\<open>update_data\<close>; \<^verbatim>\<open>state.clear()\<close> resets the state and the data.
\<close>

datatype fsm_state = ChoosingCake | ChoosingTaste | ChoosingSize | ChoosingDecor | Confirming
  | ViewingOrders | UpdatingOrderStatus

record draft =
  chosen_cake :: "pydict option"
  taste :: "ustr option"
  size_data :: "ustr option"
  decor :: "ustr option"

definition no_data :: draft where
  "no_data = \<lparr>chosen_cake = None, taste = None, size_data = None, decor = None\<rparr>"

text \<open>An incoming text message: the sender, the text, and the reading of the clock while
  it is handled.\<close>

record message =
  from_user_id :: int
  from_username :: "ustr option"
  from_full_name :: ustr
  msg_text :: ustr
  msg_clock :: ustr

text \<open>What the bot sends.  A constructor stands for one message template of the source
  (the wording differs a little between the files), with the values the template shows;
  keyboards are left out.\<close>

datatype notice =
    Hello_admin
  | Hello_user
  | Admin_cannot_use
  | No_access
  | Back_to_admin_menu
  | Back_to_user_menu
  | Catalog_empty
  | Cake_card pyval pyval pyval
  | Ask_cake
  | No_such_cake
  | Ask_taste
  | Ask_size
  | Need_number
  | Ask_decor
  | Confirm_summary pyval ustr ustr ustr
  | Order_accepted int
  | Order_failed
  | Order_cancelled
  | Need_yes_no
  | New_order int ustr int pyval ustr ustr ustr ustr
  | No_orders_yet
  | Orders_page "pydict list" "page_button list"
  | No_orders_available
  | No_pending_orders
  | Ask_update_input
  | Bad_format
  | Id_must_be_number
  | Status_updated_notified ustr ustr
  | Status_updated_no_customer ustr ustr
  | Update_failed ustr
  | Status_changed ustr ustr
  | Help_text

datatype out = Answer notice | Answer_photo pyval notice | Send_message int notice

record world =
  db :: store
  fsm :: "fsm_state option"
  data :: draft
  outbox :: "out list"
  ADMIN_IDS :: "int list"
  bot_username :: ustr

text \<open>The result of a handler: the world it leaves, and the exception that ended it if
  one was raised and not caught.\<close>

type_synonym outcome = "exn option \<times> world"

definition is_admin :: "world \<Rightarrow> int \<Rightarrow> bool" where
  "is_admin w uid = (uid \<in> set (ADMIN_IDS w))"

definition answer :: "notice \<Rightarrow> world \<Rightarrow> world" where
  "answer n w = w\<lparr>outbox := outbox w @ [Answer n]\<rparr>"

definition answer_photo :: "pyval \<Rightarrow> notice \<Rightarrow> world \<Rightarrow> world" where
  "answer_photo ph n w = w\<lparr>outbox := outbox w @ [Answer_photo ph n]\<rparr>"

definition send_message :: "int \<Rightarrow> notice \<Rightarrow> world \<Rightarrow> world" where
  "send_message chat n w = w\<lparr>outbox := outbox w @ [Send_message chat n]\<rparr>"

definition set_state :: "fsm_state \<Rightarrow> world \<Rightarrow> world" where
  "set_state s w = w\<lparr>fsm := Some s\<rparr>"

definition clear :: "world \<Rightarrow> world" where
  "clear w = w\<lparr>fsm := None, data := no_data\<rparr>"

definition log_w :: "logrec \<Rightarrow> world \<Rightarrow> world" where
  "log_w e w = w\<lparr>db := logging e (db w)\<rparr>"

text \<open>Running a ledger function on the store of the world.\<close>

definition on_db :: "(store \<Rightarrow> 'a \<times> store) \<Rightarrow> world \<Rightarrow> 'a \<times> world" where
  "on_db f w = (case f (db w) of (r, st) \<Rightarrow> (r, w\<lparr>db := st\<rparr>))"

definition CANCEL_TEXT :: ustr where
  "CANCEL_TEXT = [1054, 1090, 1084, 1077, 1085, 1072]"

definition cancel_lower :: ustr where
  "cancel_lower = [1086, 1090, 1084, 1077, 1085, 1072]"

definition YES :: ustr where
  "YES = [1076, 1072]"

definition NO :: ustr where
  "NO = [1085, 1077, 1090]"

definition DELIVERED :: ustr where
  "DELIVERED = [1044, 1086, 1089, 1090, 1072, 1074, 1083, 1077, 1085]"

definition MAKE_ORDER :: ustr where
  "MAKE_ORDER = [1057, 1076, 1077, 1083, 1072, 1090, 1100, 32, 1079, 1072, 1082, 1072, 1079]"

definition ORDER_STATUS :: ustr where
  "ORDER_STATUS = [1057, 1090, 1072, 1090, 1091, 1089, 32, 1079, 1072, 1082, 1072, 1079, 1086, 1074]"

definition VIEW_ORDERS :: ustr where
  "VIEW_ORDERS = [1055, 1088, 1086, 1089, 1084, 1086, 1090, 1088, 1077, 1090, 1100, 32, 1079, 1072,
     1082, 1072, 1079, 1099]"

definition UPDATE_STATUS :: ustr where
  "UPDATE_STATUS = [1054, 1073, 1085, 1086, 1074, 1080, 1090, 1100, 32, 1089, 1090, 1072, 1090, 1091,
     1089, 32, 1079, 1072, 1082, 1072, 1079, 1072]"

text \<open>\<^verbatim>\<open>message.from_user.username or message.from_user.full_name\<close>.\<close>

definition sender_name :: "message \<Rightarrow> ustr" where
  "sender_name m =
     (case from_username m of
        None \<Rightarrow> from_full_name m
      | Some u \<Rightarrow> if u = [] then from_full_name m else u)"

text \<open>The warning of the customer handlers of combined\_bot.py and user\_bot.py: the
  \<^verbatim>\<open>return\<close> after it is commented out, so the handler goes on.\<close>

definition warn_admin :: "message \<Rightarrow> world \<Rightarrow> world" where
  "warn_admin m w = (if is_admin w (from_user_id m) then answer Admin_cannot_use w else w)"

section \<open>Handlers shared by user\_bot.py and o3.py\<close>

definition handle_start :: "message \<Rightarrow> world \<Rightarrow> outcome" where
  "handle_start m w =
     (let w1 = clear w in
      (None, if is_admin w1 (from_user_id m) then answer Hello_admin w1 else answer Hello_user w1))"

definition handle_cancel :: "message \<Rightarrow> world \<Rightarrow> outcome" where
  "handle_cancel m w =
     (let w1 = clear w in
      (None, if is_admin w1 (from_user_id m) then answer Back_to_admin_menu w1
             else answer Back_to_user_menu w1))"

text \<open>The loop that shows the catalogue.  \<^verbatim>\<open>cake['name']\<close> raises when the column is
  missing; \<^verbatim>\<open>cake.get('name', '')\<close> does not.\<close>

definition field_index :: "pydict \<Rightarrow> string \<Rightarrow> exn + pyval" where
  "field_index d k = (case map_of d (asc k) of None \<Rightarrow> Inl KeyError | Some v \<Rightarrow> Inr v)"

definition field_get :: "pydict \<Rightarrow> string \<Rightarrow> exn + pyval" where
  "field_get d k = (case map_of d (asc k) of None \<Rightarrow> Inr (PStr []) | Some v \<Rightarrow> Inr v)"

definition cake_card :: "(pydict \<Rightarrow> string \<Rightarrow> exn + pyval) \<Rightarrow> pydict \<Rightarrow> exn + notice" where
  "cake_card field c =
     (case field c ''name'' of
        Inl e \<Rightarrow> Inl e
      | Inr n \<Rightarrow>
          (case field c ''price'' of
             Inl e \<Rightarrow> Inl e
           | Inr p \<Rightarrow>
               (case field c ''description'' of
                  Inl e \<Rightarrow> Inl e
                | Inr d \<Rightarrow> Inr (Cake_card n p d))))"

fun show_catalog :: "(pydict \<Rightarrow> string \<Rightarrow> exn + pyval) \<Rightarrow> pydict list \<Rightarrow> world \<Rightarrow> outcome" where
  "show_catalog field [] w = (None, w)"
| "show_catalog field (c # rest) w =
     (case cake_card field c of
        Inl e \<Rightarrow> (Some e, w)
      | Inr shown \<Rightarrow>
          (case map_of c (asc ''photo'') of
             None \<Rightarrow> show_catalog field rest (answer shown w)
           | Some photo \<Rightarrow>
               if truthy photo then show_catalog field rest (answer_photo photo shown w)
               else show_catalog field rest (answer shown w)))"

text \<open>The rest of the start of an order, after the check of the role: the catalogue is
  fetched and shown, and the session moves to \<open>ChoosingCake\<close>.\<close>

definition start_order :: "(pydict \<Rightarrow> string \<Rightarrow> exn + pyval) \<Rightarrow> world \<Rightarrow> outcome" where
  "start_order field w =
     (case on_db get_catalog_of_cakes w of
        (catalog, w1) \<Rightarrow>
          if catalog = [] then (None, answer Catalog_empty w1)
          else (case show_catalog field catalog w1 of
                  (Some e, w2) \<Rightarrow> (Some e, w2)
                | (None, w2) \<Rightarrow> (None, set_state ChoosingCake (answer Ask_cake w2))))"

text \<open>\<^verbatim>\<open>next((x for x in xs if test(x)), None)\<close>, where the test may raise.\<close>

fun first_where :: "('a \<Rightarrow> exn + bool) \<Rightarrow> 'a list \<Rightarrow> exn + 'a option" where
  "first_where test [] = Inr None"
| "first_where test (x # xs) =
     (case test x of
        Inl e \<Rightarrow> Inl e
      | Inr b \<Rightarrow> if b then Inr (Some x) else first_where test xs)"

text \<open>\<^verbatim>\<open>c['name'].lower() == name.lower()\<close> and \<^verbatim>\<open>c.get('name', '').lower() == name.lower()\<close>.\<close>

definition name_is_index :: "ustr \<Rightarrow> pydict \<Rightarrow> exn + bool" where
  "name_is_index chosen c =
     (case map_of c (asc ''name'') of
        None \<Rightarrow> Inl KeyError
      | Some (PInt _) \<Rightarrow> Inl AttributeError
      | Some (PStr s) \<Rightarrow> Inr (str_lower s = str_lower chosen))"

definition name_is_get :: "ustr \<Rightarrow> pydict \<Rightarrow> exn + bool" where
  "name_is_get chosen c =
     (case map_of c (asc ''name'') of
        None \<Rightarrow> Inr ([] = str_lower chosen)
      | Some (PInt _) \<Rightarrow> Inl AttributeError
      | Some (PStr s) \<Rightarrow> Inr (str_lower s = str_lower chosen))"

text \<open>The cancel checks at the head of the state handlers: the text equals the cancel word,
  written as a literal (user\_bot.py), and \<^verbatim>\<open>message.text.strip().lower() == CANCEL_TEXT.lower()\<close> (o3.py).\<close>

definition is_cancel_exact :: "message \<Rightarrow> bool" where
  "is_cancel_exact m = (msg_text m = CANCEL_TEXT)"

definition is_cancel_lower :: "message \<Rightarrow> bool" where
  "is_cancel_lower m = (str_lower (str_strip (msg_text m)) = str_lower CANCEL_TEXT)"

subsection \<open>Choosing the cake\<close>

definition choose_cake :: "(ustr \<Rightarrow> pydict \<Rightarrow> exn + bool) \<Rightarrow> message \<Rightarrow> world \<Rightarrow> outcome" where
  "choose_cake name_is m w =
     (let chosen_cake_name = str_strip (msg_text m) in
      case on_db get_catalog_of_cakes w of
        (catalog, w1) \<Rightarrow>
          (case first_where (name_is chosen_cake_name) catalog of
             Inl e \<Rightarrow> (Some e, w1)
           | Inr None \<Rightarrow> (None, answer No_such_cake w1)
           | Inr (Some c) \<Rightarrow>
               if c = [] then (None, answer No_such_cake w1)
               else (None, set_state ChoosingTaste
                       (answer Ask_taste (w1\<lparr>data := (data w1)\<lparr>chosen_cake := Some c\<rparr>\<rparr>)))))"

definition process_choosing_cake :: "message \<Rightarrow> world \<Rightarrow> outcome" where
  "process_choosing_cake m w = choose_cake name_is_index m (warn_admin m w)"

definition user_choosing_cake :: "message \<Rightarrow> world \<Rightarrow> outcome" where
  "user_choosing_cake m w =
     (if is_cancel_exact m then handle_cancel m w
      else choose_cake name_is_index m (warn_admin m w))"

definition o3_user_choosing_cake :: "message \<Rightarrow> world \<Rightarrow> outcome" where
  "o3_user_choosing_cake m w =
     (if is_cancel_lower m then handle_cancel m w
      else if is_admin w (from_user_id m) then (None, answer Admin_cannot_use w)
      else choose_cake name_is_get m w)"

subsection \<open>Choosing the taste\<close>

definition choose_taste :: "message \<Rightarrow> world \<Rightarrow> outcome" where
  "choose_taste m w =
     (None, set_state ChoosingSize
        (answer Ask_size (w\<lparr>data := (data w)\<lparr>taste := Some (str_strip (msg_text m))\<rparr>\<rparr>)))"

definition process_choosing_taste :: "message \<Rightarrow> world \<Rightarrow> outcome" where
  "process_choosing_taste m w = choose_taste m (warn_admin m w)"

definition user_choosing_taste :: "message \<Rightarrow> world \<Rightarrow> outcome" where
  "user_choosing_taste m w = (if is_cancel_exact m then handle_cancel m w else choose_taste m w)"

definition o3_user_choosing_taste :: "message \<Rightarrow> world \<Rightarrow> outcome" where
  "o3_user_choosing_taste m w = (if is_cancel_lower m then handle_cancel m w else choose_taste m w)"

subsection \<open>Choosing the size\<close>

definition choose_size :: "message \<Rightarrow> world \<Rightarrow> outcome" where
  "choose_size m w =
     (let size_text = str_strip (msg_text m) in
      if \<not> str_isdigit size_text then (None, answer Need_number w)
      else (None, set_state ChoosingDecor
              (answer Ask_decor (w\<lparr>data := (data w)\<lparr>size_data := Some size_text\<rparr>\<rparr>))))"

definition process_choosing_size :: "message \<Rightarrow> world \<Rightarrow> outcome" where
  "process_choosing_size m w = choose_size m (warn_admin m w)"

definition user_choosing_size :: "message \<Rightarrow> world \<Rightarrow> outcome" where
  "user_choosing_size m w = (if is_cancel_exact m then handle_cancel m w else choose_size m w)"

definition o3_user_choosing_size :: "message \<Rightarrow> world \<Rightarrow> outcome" where
  "o3_user_choosing_size m w = (if is_cancel_lower m then handle_cancel m w else choose_size m w)"

subsection \<open>Choosing the decor\<close>

text \<open>combined\_bot.py and user\_bot.py read the data with \<^verbatim>\<open>data['...']\<close>, which raises
  on a field not yet stored; o3.py reads with \<^verbatim>\<open>data.get('...', default)\<close>.\<close>

definition choose_decor :: "message \<Rightarrow> world \<Rightarrow> outcome" where
  "choose_decor m w =
     (let w1 = w\<lparr>data := (data w)\<lparr>decor := Some (str_strip (msg_text m))\<rparr>\<rparr> in
      case chosen_cake (data w1) of
        None \<Rightarrow> (Some KeyError, w1)
      | Some c \<Rightarrow>
          (case taste (data w1) of
             None \<Rightarrow> (Some KeyError, w1)
           | Some t \<Rightarrow>
               (case size_data (data w1) of
                  None \<Rightarrow> (Some KeyError, w1)
                | Some sz \<Rightarrow>
                    (case field_index c ''name'' of
                       Inl e \<Rightarrow> (Some e, w1)
                     | Inr n \<Rightarrow>
                         (None, set_state Confirming
                            (answer (Confirm_summary n t sz (str_strip (msg_text m))) w1))))))"

definition process_choosing_decor :: "message \<Rightarrow> world \<Rightarrow> outcome" where
  "process_choosing_decor m w = choose_decor m (warn_admin m w)"

definition user_choosing_decor :: "message \<Rightarrow> world \<Rightarrow> outcome" where
  "user_choosing_decor m w = (if is_cancel_exact m then handle_cancel m w else choose_decor m w)"

definition o3_user_choosing_decor :: "message \<Rightarrow> world \<Rightarrow> outcome" where
  "o3_user_choosing_decor m w =
     (if is_cancel_lower m then handle_cancel m w
      else
        let w1 = w\<lparr>data := (data w)\<lparr>decor := Some (str_strip (msg_text m))\<rparr>\<rparr>;
            c = (case chosen_cake (data w1) of None \<Rightarrow> [] | Some c \<Rightarrow> c);
            t = (case taste (data w1) of None \<Rightarrow> [] | Some t \<Rightarrow> t);
            sz = (case size_data (data w1) of None \<Rightarrow> [] | Some sz \<Rightarrow> sz);
            n = (case map_of c (asc ''name'') of None \<Rightarrow> PStr [] | Some v \<Rightarrow> v)
        in (None, set_state Confirming
              (answer (Confirm_summary n t sz (str_strip (msg_text m))) w1)))"

subsection \<open>Confirming\<close>

text \<open>The notice to the operators: every send is in its own \<^verbatim>\<open>try\<close>, the text being built
  inside it.\<close>

fun notify_admins :: "int list \<Rightarrow> notice option \<Rightarrow> world \<Rightarrow> world" where
  "notify_admins [] n w = w"
| "notify_admins (admin_id # rest) n w =
     (case n of
        None \<Rightarrow> notify_admins rest n (log_w (Error_notify admin_id) w)
      | Some x \<Rightarrow> notify_admins rest n (send_message admin_id x w))"

definition new_order_notice :: "int \<Rightarrow> message \<Rightarrow> pydict \<Rightarrow> ustr \<Rightarrow> ustr \<Rightarrow> ustr \<Rightarrow> notice option" where
  "new_order_notice order_id m c t sz dec =
     (case field_index c ''name'' of
        Inl _ \<Rightarrow> None
      | Inr n \<Rightarrow> Some (New_order order_id (sender_name m) (from_user_id m) n t sz dec (msg_clock m)))"

text \<open>The branch on the answer, the same in combined\_bot.py and user\_bot.py.\<close>

definition confirm :: "ustr \<Rightarrow> message \<Rightarrow> world \<Rightarrow> outcome" where
  "confirm response m w =
     (if response = YES then
        (case chosen_cake (data w) of
           None \<Rightarrow> (Some KeyError, w)
         | Some c \<Rightarrow>
             (case taste (data w) of
                None \<Rightarrow> (Some KeyError, w)
              | Some t \<Rightarrow>
                  (case size_data (data w) of
                     None \<Rightarrow> (Some KeyError, w)
                   | Some sz \<Rightarrow>
                       (case decor (data w) of
                          None \<Rightarrow> (Some KeyError, w)
                        | Some dec \<Rightarrow>
                            (case on_db (create_new_order
                                    \<lparr>a_user_id = from_user_id m, a_user_name = sender_name m,
                                     a_cake = c, a_taste = t, a_size = sz, a_decor = dec,
                                     a_now = msg_clock m\<rparr>) w of
                               (Some order_id, w1) \<Rightarrow>
                                 (None, clear (notify_admins (ADMIN_IDS w1)
                                    (new_order_notice order_id m c t sz dec)
                                    (answer (Order_accepted order_id) w1)))
                             | (None, w1) \<Rightarrow> (None, clear (answer Order_failed w1)))))))
      else if response = NO then (None, clear (answer Order_cancelled w))
      else (None, answer Need_yes_no w))"


definition user_confirming_order :: "message \<Rightarrow> world \<Rightarrow> outcome" where
  "user_confirming_order m w =
     (let response = str_lower (msg_text m) in
      if response = cancel_lower then handle_cancel m w
      else confirm response m w)"

subsection \<open>Listing orders\<close>

text \<open>The blocks of a page are written with \<^verbatim>\<open>o['...']\<close> in combined\_bot.py and
  user\_bot.py, which raises on a record lacking a column, and with \<^verbatim>\<open>o.get('...')\<close> in
  o3.py.  The pages are the slices \<^verbatim>\<open>sorted_orders[start:end]\<close> for
  \<^verbatim>\<open>page in range(pages)\<close>.\<close>

definition has_fields :: "string list \<Rightarrow> pydict \<Rightarrow> bool" where
  "has_fields ks rec = list_all (\<lambda>k. map_of rec (asc k) \<noteq> None) ks"

definition USER_FIELDS :: "string list" where
  "USER_FIELDS = [''OrderID'', ''cake_name'', ''price'', ''taste'', ''size'', ''decor'', ''status'',
     ''date'']"

definition ADMIN_FIELDS :: "string list" where
  "ADMIN_FIELDS = [''OrderID'', ''user_name'', ''user_id'', ''cake_name'', ''price'', ''taste'',
     ''size'', ''decor'', ''status'', ''date'']"

definition pages_of :: "int \<Rightarrow> pydict list \<Rightarrow> pydict list list" where
  "pages_of page_size sorted_orders =
     map (\<lambda>page. py_slice sorted_orders (int page * page_size) (int page * page_size + page_size))
       [0 ..< nat (page_count sorted_orders page_size)]"

fun show_pages :: "(pydict \<Rightarrow> bool) \<Rightarrow> pydict list list \<Rightarrow> world \<Rightarrow> outcome" where
  "show_pages ok [] w = (None, w)"
| "show_pages ok (chunk # rest) w =
     (if list_all ok chunk then show_pages ok rest (answer (Orders_page chunk []) w)
      else (Some KeyError, w))"

text \<open>\<^verbatim>\<open>cmd_status\<close> of combined\_bot.py and \<^verbatim>\<open>user_check_status\<close> of user\_bot.py.\<close>

definition user_check_status :: "message \<Rightarrow> world \<Rightarrow> outcome" where
  "user_check_status m w =
     (let w1 = warn_admin m w in
      case on_db (get_all_orders_by_user (from_user_id m)) w1 of
        (user_orders, w2) \<Rightarrow>
          if user_orders = [] then (None, answer No_orders_yet w2)
          else (case on_db (sort_orders date_key_index user_orders) w2 of
                  (sorted_orders, w3) \<Rightarrow>
                    show_pages (has_fields USER_FIELDS) (pages_of 5 sorted_orders) w3))"

text \<open>\<^verbatim>\<open>user_check_status\<close> of o3.py: the first page, one order on a page.\<close>

definition o3_user_check_status :: "message \<Rightarrow> world \<Rightarrow> outcome" where
  "o3_user_check_status m w =
     (if is_admin w (from_user_id m) then (None, answer Admin_cannot_use w)
      else
        case on_db (o3_get_all_orders_by_user (from_user_id m)) w of
          (user_orders, w1) \<Rightarrow>
            if user_orders = [] then (None, answer No_orders_yet w1)
            else (case on_db (sort_orders date_key_get user_orders) w1 of
                    (sorted_orders, w2) \<Rightarrow>
                      (case get_orders_page_text_and_markup sorted_orders 0 1 of
                         Inl e \<Rightarrow> (Some e, w2)
                       | Inr (chunk, buttons) \<Rightarrow> (None, answer (Orders_page chunk buttons) w2))))"

text \<open>\<^verbatim>\<open>admin_view_orders_menu\<close> (\<^verbatim>\<open>admin_cmd_view_orders\<close> in combined\_bot.py).\<close>

definition view_orders ::
  "(pydict \<Rightarrow> exn + datetime) \<Rightarrow> (pydict \<Rightarrow> bool) \<Rightarrow> message \<Rightarrow> world \<Rightarrow> outcome" where
  "view_orders key ok m w =
     (if \<not> is_admin w (from_user_id m) then (None, answer No_access w)
      else
        case on_db get_all_orders w of
          (all_orders, w1) \<Rightarrow>
            if all_orders = [] then (None, answer No_orders_available w1)
            else
              let filtered_orders =
                    filter (\<lambda>rec. map_of rec (asc ''status'') \<noteq> Some (PStr DELIVERED)) all_orders
              in if filtered_orders = [] then (None, answer No_pending_orders w1)
                 else (case on_db (sort_orders key filtered_orders) w1 of
                         (sorted_orders, w2) \<Rightarrow> show_pages ok (pages_of 10 sorted_orders) w2))"

definition admin_view_orders_menu :: "message \<Rightarrow> world \<Rightarrow> outcome" where
  "admin_view_orders_menu = view_orders date_key_index (has_fields ADMIN_FIELDS)"

definition o3_admin_view_orders_menu :: "message \<Rightarrow> world \<Rightarrow> outcome" where
  "o3_admin_view_orders_menu = view_orders date_key_get (\<lambda>rec. True)"

subsection \<open>Starting an order\<close>

text \<open>\<^verbatim>\<open>cmd_menu\<close> of combined\_bot.py and \<^verbatim>\<open>user_make_order\<close> of user\_bot.py warn an
  operator and go on; \<^verbatim>\<open>user_make_order\<close> of o3.py returns after the warning.\<close>

definition cmd_menu :: "message \<Rightarrow> world \<Rightarrow> outcome" where
  "cmd_menu m w = start_order field_index (warn_admin m w)"

definition user_make_order :: "message \<Rightarrow> world \<Rightarrow> outcome" where
  "user_make_order m w = start_order field_index (warn_admin m w)"

definition o3_user_make_order :: "message \<Rightarrow> world \<Rightarrow> outcome" where
  "o3_user_make_order m w =
     (if is_admin w (from_user_id m) then (None, answer Admin_cannot_use w)
      else start_order field_get w)"

subsection \<open>Updating a status\<close>

definition admin_update_status_menu :: "message \<Rightarrow> world \<Rightarrow> outcome" where
  "admin_update_status_menu m w =
     (if \<not> is_admin w (from_user_id m) then (None, answer No_access w)
      else (None, set_state UpdatingOrderStatus (answer Ask_update_input w)))"

definition send_status_update :: "int \<Rightarrow> ustr \<Rightarrow> ustr \<Rightarrow> world \<Rightarrow> world" where
  "send_status_update uid order_id new_status w =
     log_w (Sent_update uid order_id) (send_message uid (Status_changed order_id new_status) w)"

text \<open>\<^verbatim>\<open>str(o['OrderID']) == str(order_id)\<close> and \<^verbatim>\<open>str(o.get('OrderID')) == order_id\<close>.\<close>

definition id_is_index :: "ustr \<Rightarrow> pydict \<Rightarrow> exn + bool" where
  "id_is_index order_id rec =
     (case map_of rec (asc ''OrderID'') of
        None \<Rightarrow> Inl KeyError
      | Some v \<Rightarrow> Inr (py_str v = order_id))"

definition id_is_get :: "ustr \<Rightarrow> pydict \<Rightarrow> exn + bool" where
  "id_is_get order_id rec = Inr (str_of_get rec (asc ''OrderID'') = order_id)"

text \<open>\<^verbatim>\<open>int(order['user_id'])\<close> and \<^verbatim>\<open>int(order.get('user_id', 0))\<close>.\<close>

definition py_int_val :: "pyval \<Rightarrow> exn + int" where
  "py_int_val v =
     (case v of
        PInt i \<Rightarrow> Inr i
      | PStr s \<Rightarrow> (case py_int s of None \<Rightarrow> Inl ValueError | Some i \<Rightarrow> Inr i))"

definition customer_index :: "pydict \<Rightarrow> exn + int" where
  "customer_index rec =
     (case map_of rec (asc ''user_id'') of None \<Rightarrow> Inl KeyError | Some v \<Rightarrow> py_int_val v)"

definition customer_get :: "pydict \<Rightarrow> exn + int" where
  "customer_get rec =
     (case map_of rec (asc ''user_id'') of None \<Rightarrow> Inr 0 | Some v \<Rightarrow> py_int_val v)"

text \<open>From the call of \<^verbatim>\<open>update_order_status\<close> to the final \<^verbatim>\<open>state.clear()\<close>.\<close>

definition apply_update ::
  "(ustr \<Rightarrow> pydict \<Rightarrow> exn + bool) \<Rightarrow> (pydict \<Rightarrow> exn + int) \<Rightarrow> ustr \<Rightarrow> ustr \<Rightarrow> world \<Rightarrow> outcome" where
  "apply_update id_is customer order_id new_status w =
     (case on_db (update_order_status (PStr order_id) new_status) w of
        (True, w1) \<Rightarrow>
          (case on_db get_all_orders w1 of
             (all_orders, w2) \<Rightarrow>
               (case first_where (id_is order_id) all_orders of
                  Inl e \<Rightarrow> (Some e, w2)
                | Inr None \<Rightarrow>
                    (None, clear (answer (Status_updated_no_customer order_id new_status) w2))
                | Inr (Some rec) \<Rightarrow>
                    if rec = [] then
                      (None, clear (answer (Status_updated_no_customer order_id new_status) w2))
                    else
                      (case customer rec of
                         Inl e \<Rightarrow> (Some e, w2)
                       | Inr uid \<Rightarrow>
                           (None, clear (answer (Status_updated_notified order_id new_status)
                                    (send_status_update uid order_id new_status w2))))))
      | (False, w1) \<Rightarrow> (None, clear (answer (Update_failed order_id) w1)))"

text \<open>The checks of the input, from \<^verbatim>\<open>parts = ....split(maxsplit=1)\<close> on.\<close>

definition update_from_parts ::
  "(ustr \<Rightarrow> pydict \<Rightarrow> exn + bool) \<Rightarrow> (pydict \<Rightarrow> exn + int) \<Rightarrow> ustr \<Rightarrow> world \<Rightarrow> outcome" where
  "update_from_parts id_is customer input_text w =
     (let parts = str_split1 input_text in
      if length parts \<noteq> 2 then (None, answer Bad_format w)
      else
        let order_id = parts ! 0; new_status = parts ! 1 in
        if \<not> str_isdigit order_id then (None, answer Id_must_be_number w)
        else apply_update id_is customer order_id new_status w)"

text \<open>\<^verbatim>\<open>process_update_status\<close> of combined\_bot.py (and admin\_bot.py).\<close>

definition process_update_status :: "message \<Rightarrow> world \<Rightarrow> outcome" where
  "process_update_status m w =
     (if \<not> is_admin w (from_user_id m) then (None, answer No_access w)
      else
        let input_text = str_strip (msg_text m) in
        if input_text = [] then (None, answer Ask_update_input w)
        else update_from_parts id_is_index customer_index input_text w)"

text \<open>\<^verbatim>\<open>admin_process_update_status\<close> of user\_bot.py and of o3.py.\<close>

definition admin_process_update_status :: "message \<Rightarrow> world \<Rightarrow> outcome" where
  "admin_process_update_status m w =
     (if is_cancel_exact m then handle_cancel m w
      else if \<not> is_admin w (from_user_id m) then (None, answer No_access w)
      else update_from_parts id_is_index customer_index (str_strip (msg_text m)) w)"

definition o3_admin_process_update_status :: "message \<Rightarrow> world \<Rightarrow> outcome" where
  "o3_admin_process_update_status m w =
     (if is_cancel_lower m then handle_cancel m w
      else if \<not> is_admin w (from_user_id m) then (None, answer No_access w)
      else update_from_parts id_is_get customer_get (str_strip (msg_text m)) w)"

section \<open>Routing\<close>

text \<open>
  A message goes to the first handler, in the order of registration, whose filter accepts
  it; a handler registered without a state accepts the message in every state.  The filter
  \<^verbatim>\<open>Command("start")\<close> accepts a text whose first token is \<^verbatim>\<open>/start\<close>, with or without
  \<^verbatim>\<open>@\<close> and the name of the bot.
\<close>

definition command_matches :: "string \<Rightarrow> world \<Rightarrow> ustr \<Rightarrow> bool" where
  "command_matches name w txt =
     (case str_split1 txt of
        [] \<Rightarrow> False
      | full # _ \<Rightarrow>
          (case full of
             [] \<Rightarrow> False
           | pfx # rest \<Rightarrow>
               let cmd = takeWhile (\<lambda>c. c \<noteq> 64) rest;
                   mention = drop 1 (dropWhile (\<lambda>c. c \<noteq> 64) rest)
               in pfx = 47 \<and> (mention = [] \<or> str_lower mention = str_lower (bot_username w))
                  \<and> cmd = asc name))"

definition user_bot_route :: "message \<Rightarrow> world \<Rightarrow> outcome" where
  "user_bot_route m w =
     (if command_matches ''start'' w (msg_text m) then handle_start m w
      else if msg_text m = CANCEL_TEXT then handle_cancel m w
      else if msg_text m = MAKE_ORDER then user_make_order m w
      else if msg_text m = ORDER_STATUS then user_check_status m w
      else if fsm w = Some ChoosingCake then user_choosing_cake m w
      else if fsm w = Some ChoosingTaste then user_choosing_taste m w
      else if fsm w = Some ChoosingSize then user_choosing_size m w
      else if fsm w = Some ChoosingDecor then user_choosing_decor m w
      else if fsm w = Some Confirming then user_confirming_order m w
      else if msg_text m = VIEW_ORDERS then admin_view_orders_menu m w
      else if msg_text m = UPDATE_STATUS then admin_update_status_menu m w
      else if fsm w = Some UpdatingOrderStatus then admin_process_update_status m w
      else (None, w))"

text \<open>o3.py has no message handler for \<open>Confirming\<close>: the order is confirmed by an inline
  button.\<close>

definition o3_route :: "message \<Rightarrow> world \<Rightarrow> outcome" where
  "o3_route m w =
     (if command_matches ''start'' w (msg_text m) then handle_start m w
      else if msg_text m = CANCEL_TEXT then handle_cancel m w
      else if msg_text m = MAKE_ORDER then o3_user_make_order m w
      else if msg_text m = ORDER_STATUS then o3_user_check_status m w
      else if fsm w = Some ChoosingCake then o3_user_choosing_cake m w
      else if fsm w = Some ChoosingTaste then o3_user_choosing_taste m w
      else if fsm w = Some ChoosingSize then o3_user_choosing_size m w
      else if fsm w = Some ChoosingDecor then o3_user_choosing_decor m w
      else if msg_text m = VIEW_ORDERS then o3_admin_view_orders_menu m w
      else if msg_text m = UPDATE_STATUS then admin_update_status_menu m w
      else if fsm w = Some UpdatingOrderStatus then o3_admin_process_update_status m w
      else (None, w))"

section \<open>Example data\<close>

definition ORDERS_HEADER :: row where
  "ORDERS_HEADER = [asc ''OrderID'', asc ''user_id'', asc ''user_name'', asc ''cake_name'',
     asc ''price'', asc ''taste'', asc ''size'', asc ''decor'', asc ''status'', asc ''date'']"

definition CAKES_HEADER :: row where
  "CAKES_HEADER = [asc ''name'', asc ''price'', asc ''description'', asc ''photo'']"

definition chocolate :: pydict where
  "chocolate = [(asc ''name'', PStr (asc ''Chocolate'')), (asc ''price'', PInt 500),
     (asc ''description'', PStr (asc ''dark'')), (asc ''photo'', PStr [])]"

definition one_order :: store where
  "one_order = \<lparr>orders = [ORDERS_HEADER,
       [asc ''1'', asc ''7'', asc ''ann'', asc ''Chocolate'', asc ''500'', asc ''dark'', asc ''8'',
        asc ''none'', INITIAL_STATUS, asc ''2024-01-05 10:00:00'']],
     cakes = [CAKES_HEADER, [asc ''Chocolate'', asc ''500'', asc ''dark'', []]], logged = []\<rparr>"






definition text_from :: "int \<Rightarrow> ustr \<Rightarrow> message" where
  "text_from u t = \<lparr>from_user_id = u, from_username = Some (asc ''ann''), from_full_name = asc ''Ann'',
     msg_text = t, msg_clock = asc ''2024-01-05 10:00:00''\<rparr>"

definition half_draft :: draft where
  "half_draft = \<lparr>chosen_cake = Some chocolate, taste = Some (asc ''dark''), size_data = None,
     decor = None\<rparr>"

definition full_draft :: draft where
  "full_draft = \<lparr>chosen_cake = Some chocolate, taste = Some (asc ''dark''),
     size_data = Some (asc ''8''), decor = Some (asc ''none'')\<rparr>"

text \<open>A world with the operator 99, in the given state of the sender's session.\<close>

definition world_in :: "fsm_state option \<Rightarrow> draft \<Rightarrow> store \<Rightarrow> world" where
  "world_in s d st = \<lparr>db = st, fsm = s, data = d, outbox = [], ADMIN_IDS = [99],
     bot_username = asc ''cakebot''\<rparr>"

section \<open>The claims' own notions\<close>

text \<open>``The input parses as a positive integer''.\<close>

definition parses_as_positive_int :: "ustr \<Rightarrow> bool" where
  "parses_as_positive_int s = (case py_int s of None \<Rightarrow> False | Some i \<Rightarrow> 0 < i)"

text \<open>``The input splits into exactly two white-space separated tokens whose first token
  parses as a number''.\<close>

definition two_tokens_numeric_first :: "ustr \<Rightarrow> bool" where
  "two_tokens_numeric_first s =
     (case str_split s of [a, b] \<Rightarrow> py_int a \<noteq> None | _ \<Rightarrow> False)"

section \<open>Facts about the text primitives\<close>

lemma py_decimal_ascii: "48 \<le> c \<Longrightarrow> c \<le> 57 \<Longrightarrow> py_decimal c = Some (c - 48)"
  by (simp add: py_decimal_def decimal_ranges_def)










section \<open>Order creation\<close>





lemma returned_ids_Cons [simp]:
  "returned_ids (None # rs) = returned_ids rs" "returned_ids (Some i # rs) = i # returned_ids rs"
  "returned_ids [] = []"
  by (simp_all add: returned_ids_def List.map_filter_simps)







section \<open>Status update\<close>

lemma find_order_row_None:
  "oid \<notin> (\<lambda>order. str_of_get order (asc ''OrderID'')) ` set os \<Longrightarrow> find_order_row oid i os = None"
  by (induction os arbitrary: i) auto

lemma find_order_row_Some:
  "oid \<in> (\<lambda>order. str_of_get order (asc ''OrderID'')) ` set os \<Longrightarrow> \<exists>j. find_order_row oid i os = Some j"
  by (induction os arbitrary: i) auto

lemmas text_eval = py_int_def asc_def str_strip_def py_isspace_def in_ranges_def space_ranges_def
  py_decimal_def decimal_ranges_def py_str_int_def digits_of_nat.simps

lemma py_int_01: "py_int (asc ''01'') = Some 1" "py_int (asc ''1'') = Some 1"
  by (simp_all add: text_eval)

lemma ORDERS_HEADER_distinct: "distinct ORDERS_HEADER"
  by (simp add: ORDERS_HEADER_def asc_def)

lemma one_order_ids: "stored_ids (orders one_order) = [asc ''1'']"
  apply (simp add: stored_ids_def one_order_def get_all_records_def ORDERS_HEADER_distinct)
  apply (simp add: record_of_def ORDERS_HEADER_def str_of_get_def)
  apply (simp add: asc_def numericise_def)
  apply (simp add: text_eval)
  done

text \<open>
  C2.  \<^verbatim>\<open>update_order_status\<close> with an identifier that is the printed \<^verbatim>\<open>OrderID\<close> of no
  stored order returns \<^verbatim>\<open>False\<close> and leaves both sheets as they were, whatever the
  ledger holds.
\<close>

theorem update_unknown_id_fails:
  assumes "py_str order_id \<notin> set (stored_ids (orders st))"
  shows "fst (update_order_status order_id new_status st) = False \<and>
         orders (snd (update_order_status order_id new_status st)) = orders st \<and>
         cakes (snd (update_order_status order_id new_status st)) = cakes st"
proof (cases "get_all_records (orders st)")
  case (Inl e)
  then show ?thesis by (simp add: update_order_status_def logging_def)
next
  case (Inr all_orders)
  then have "find_order_row (py_str order_id) 2 all_orders = None"
    using assms find_order_row_None by (simp add: stored_ids_def)
  then show ?thesis using Inr by (simp add: update_order_status_def logging_def Let_def)
qed

theorem update_unknown_id_fails_witness:
  "py_str (PStr (asc ''2'')) \<notin> set (stored_ids (orders one_order)) \<and>
   fst (update_order_status (PStr (asc ''2'')) (asc ''Delivered'') one_order) = False \<and>
   orders (snd (update_order_status (PStr (asc ''2'')) (asc ''Delivered'') one_order))
     = orders one_order"
proof -
  have h: "py_str (PStr (asc ''2'')) \<notin> set (stored_ids (orders one_order))"
    by (simp add: one_order_ids asc_def)
  show ?thesis using update_unknown_id_fails[OF h, of "asc ''Delivered''"] h by simp
qed

text \<open>
  C9.  The order is located by equality of texts: when the records can be read and the
  status column exists, \<^verbatim>\<open>update_order_status\<close> succeeds exactly when the printed argument
  is the printed \<^verbatim>\<open>OrderID\<close> of some stored order; otherwise it only logs that the order
  was not found and writes nothing.  The identifier \<^verbatim>\<open>01\<close> is the number 1 and still does
  not find the order stored as 1.
\<close>

theorem update_matches_textually:
  assumes "get_all_records (orders st) = Inr all_orders"
    and "asc ''status'' \<in> set (row_values1 (orders st))"
  shows "(fst (update_order_status order_id new_status st)
            \<longleftrightarrow> py_str order_id \<in> set (stored_ids (orders st))) \<and>
         (py_str order_id \<notin> set (stored_ids (orders st)) \<longrightarrow>
            snd (update_order_status order_id new_status st)
              = logging (Order_not_found (py_str order_id)) st)"
proof (cases "py_str order_id \<in> set (stored_ids (orders st))")
  case True
  then obtain j where "find_order_row (py_str order_id) 2 all_orders = Some j"
    using find_order_row_Some[of "py_str order_id" all_orders 2] assms(1)
    by (auto simp: stored_ids_def)
  then show ?thesis using True assms by (simp add: update_order_status_def Let_def)
next
  case False
  then have "find_order_row (py_str order_id) 2 all_orders = None"
    using find_order_row_None assms(1) by (simp add: stored_ids_def)
  then show ?thesis using False assms by (simp add: update_order_status_def Let_def)
qed

theorem update_matches_textually_witness:
  "py_int (asc ''01'') = py_int (asc ''1'') \<and>
   stored_ids (orders one_order) = [asc ''1''] \<and>
   \<not> fst (update_order_status (PStr (asc ''01'')) (asc ''Delivered'') one_order) \<and>
   snd (update_order_status (PStr (asc ''01'')) (asc ''Delivered'') one_order)
     = logging (Order_not_found (asc ''01'')) one_order \<and>
   fst (update_order_status (PStr (asc ''1'')) (asc ''Delivered'') one_order)"
proof -
  have r: "get_all_records (orders one_order) = Inr (map (record_of ORDERS_HEADER) (tl (orders one_order)))"
    by (simp add: one_order_def get_all_records_def ORDERS_HEADER_distinct)
  have s: "asc ''status'' \<in> set (row_values1 (orders one_order))"
    by (simp add: one_order_def row_values1_def ORDERS_HEADER_def)
  have n: "asc ''01'' \<noteq> asc ''1''" by (simp add: asc_def)
  show ?thesis
    using update_matches_textually[OF r s, of "PStr (asc ''01'')" "asc ''Delivered''"]
      update_matches_textually[OF r s, of "PStr (asc ''1'')" "asc ''Delivered''"]
      one_order_ids py_int_01 n
    by simp
qed

section \<open>Pagination\<close>










section \<open>Ordering by date\<close>








section \<open>Facts about the handlers\<close>

lemma answer_fields [simp]:
  "db (answer n w) = db w" "fsm (answer n w) = fsm w" "data (answer n w) = data w"
  "ADMIN_IDS (answer n w) = ADMIN_IDS w" "outbox (answer n w) = outbox w @ [Answer n]"
  by (simp_all add: answer_def)

lemma clear_fields [simp]:
  "db (clear w) = db w" "fsm (clear w) = None" "data (clear w) = no_data"
  "ADMIN_IDS (clear w) = ADMIN_IDS w" "outbox (clear w) = outbox w"
  by (simp_all add: clear_def)

lemma set_state_fields [simp]:
  "db (set_state s w) = db w" "fsm (set_state s w) = Some s" "data (set_state s w) = data w"
  "ADMIN_IDS (set_state s w) = ADMIN_IDS w" "outbox (set_state s w) = outbox w"
  by (simp_all add: set_state_def)

lemma send_message_fields [simp]:
  "db (send_message c n w) = db w" "fsm (send_message c n w) = fsm w"
  "data (send_message c n w) = data w" "ADMIN_IDS (send_message c n w) = ADMIN_IDS w"
  by (simp_all add: send_message_def)

lemma warn_admin_fields [simp]:
  "db (warn_admin m w) = db w" "fsm (warn_admin m w) = fsm w" "data (warn_admin m w) = data w"
  "ADMIN_IDS (warn_admin m w) = ADMIN_IDS w"
  by (simp_all add: warn_admin_def)

lemma is_admin_cong [simp]:
  "is_admin (answer n w) u = is_admin w u" "is_admin (clear w) u = is_admin w u"
  "is_admin (warn_admin m w) u = is_admin w u"
  by (simp_all add: is_admin_def)

lemma handle_cancel_eq:
  "handle_cancel m w =
     (None, answer (if is_admin w (from_user_id m) then Back_to_admin_menu else Back_to_user_menu) (clear w))"
  by (simp add: handle_cancel_def Let_def)

lemma log_w_fields [simp]:
  "fsm (log_w e w) = fsm w" "data (log_w e w) = data w" "outbox (log_w e w) = outbox w"
  "ADMIN_IDS (log_w e w) = ADMIN_IDS w" "db (log_w e w) = logging e (db w)"
  by (simp_all add: log_w_def)

lemma on_db_fields [simp]:
  "fsm (snd (on_db f w)) = fsm w" "data (snd (on_db f w)) = data w"
  "outbox (snd (on_db f w)) = outbox w" "ADMIN_IDS (snd (on_db f w)) = ADMIN_IDS w"
  "db (snd (on_db f w)) = snd (f (db w))" "fst (on_db f w) = fst (f (db w))"
  by (simp_all add: on_db_def split: prod.splits)

lemma lower_in_outside:
  "list_all (\<lambda>(a, b, s, d). c < a \<or> b < c) rs \<Longrightarrow> lower_in rs c = c"
  by (induction rs) auto

lemma lower_in_hit:
  "list_all (\<lambda>(a, b, s, d). c < a \<or> b < c) xs \<Longrightarrow> a \<le> c \<Longrightarrow> c \<le> b \<Longrightarrow> (c - a) mod s = 0 \<Longrightarrow>
   lower_in (xs @ (a, b, s, d) # ys) c = nat (int c + d)"
  by (induction xs) auto

lemma lower_below_capitals: "c < 65 \<Longrightarrow> lower_in lower_table c = c"
  by (rule lower_in_outside) (simp add: lower_table_def)

lemma lower_ascii_small: "91 \<le> c \<Longrightarrow> c \<le> 191 \<Longrightarrow> lower_in lower_table c = c"
  by (rule lower_in_outside) (simp add: lower_table_def)

lemma lower_cyrillic_small: "1072 \<le> c \<Longrightarrow> c \<le> 1103 \<Longrightarrow> lower_in lower_table c = c"
  by (rule lower_in_outside) (simp add: lower_table_def)

lemma lower_table_split:
  "lower_table = take 79 lower_table @ (1040, 1071, 1, 32) # drop 80 lower_table"
  by (simp add: lower_table_def)

lemma lower_cyrillic_capital:
  assumes "1040 \<le> c" "c \<le> 1071"
  shows "lower_in lower_table c = c + 32"
proof -
  have "list_all (\<lambda>(a, b, s, d). c < a \<or> b < c) (take 79 lower_table)"
    using assms by (simp add: lower_table_def)
  from lower_in_hit[OF this, of 1040 1071 1 32 "drop 80 lower_table"] assms
  have "lower_in (take 79 lower_table @ (1040, 1071, 1, 32) # drop 80 lower_table) c
          = nat (int c + 32)"
    by simp
  then show ?thesis using lower_table_split by (simp add: nat_add_distrib)
qed

lemma py_lower_simps:
  "1040 \<le> c \<Longrightarrow> c \<le> 1071 \<Longrightarrow> py_lower c = [c + 32]"
  "1072 \<le> c \<Longrightarrow> c \<le> 1103 \<Longrightarrow> py_lower c = [c]"
  "c < 65 \<Longrightarrow> py_lower c = [c]"
  "91 \<le> c \<Longrightarrow> c \<le> 191 \<Longrightarrow> py_lower c = [c]"
  by (auto simp: py_lower_def lower_cyrillic_capital lower_cyrillic_small lower_below_capitals
      lower_ascii_small)

lemma lower_CANCEL: "str_lower CANCEL_TEXT = cancel_lower"
  by (simp add: str_lower_def CANCEL_TEXT_def cancel_lower_def py_lower_simps)

lemmas space_eval = py_isspace_def in_ranges_def space_ranges_def

lemma CANCEL_no_space: "str_strip CANCEL_TEXT = CANCEL_TEXT"
  by (simp add: str_strip_def CANCEL_TEXT_def py_isspace_def in_ranges_def space_ranges_def)

lemma CANCEL_not_command: "\<not> command_matches name w CANCEL_TEXT"
  by (simp add: command_matches_def str_split1_def CANCEL_TEXT_def py_isspace_def in_ranges_def
      space_ranges_def Let_def)

section \<open>Cancelling\<close>

text \<open>
  C3.  The cancel signal is the message with the text of the cancel button.  In user\_bot.py
  and in o3.py the router hands it to \<^verbatim>\<open>handle_cancel\<close> in every state of the session and
  with every draft, before any state handler is tried; each state handler, called with it,
  does the same before anything else.  \<^verbatim>\<open>handle_cancel\<close> raises nothing, leaves the
  session idle with empty data, leaves the store as it was and sends one message.
\<close>

theorem cancel_from_any_state:
  assumes "msg_text m = CANCEL_TEXT"
  shows "user_bot_route m w = handle_cancel m w \<and> o3_route m w = handle_cancel m w \<and>
         user_choosing_cake m w = handle_cancel m w \<and>
         user_choosing_taste m w = handle_cancel m w \<and>
         user_choosing_size m w = handle_cancel m w \<and>
         user_choosing_decor m w = handle_cancel m w \<and>
         user_confirming_order m w = handle_cancel m w \<and>
         admin_process_update_status m w = handle_cancel m w \<and>
         o3_user_choosing_cake m w = handle_cancel m w \<and>
         o3_user_choosing_taste m w = handle_cancel m w \<and>
         o3_user_choosing_size m w = handle_cancel m w \<and>
         o3_user_choosing_decor m w = handle_cancel m w \<and>
         o3_admin_process_update_status m w = handle_cancel m w \<and>
         fst (handle_cancel m w) = None \<and>
         fsm (snd (handle_cancel m w)) = None \<and>
         data (snd (handle_cancel m w)) = no_data \<and>
         db (snd (handle_cancel m w)) = db w \<and>
         length (outbox (snd (handle_cancel m w))) = Suc (length (outbox w))"
proof -
  have ex: "is_cancel_exact m" using assms by (simp add: is_cancel_exact_def)
  have lo: "is_cancel_lower m" using assms by (simp add: is_cancel_lower_def CANCEL_no_space)
  have cf: "str_lower (msg_text m) = cancel_lower" using assms by (simp add: lower_CANCEL)
  have nc: "\<not> command_matches ''start'' w (msg_text m)" using assms by (simp add: CANCEL_not_command)
  have r1: "user_bot_route m w = handle_cancel m w" using assms nc by (simp add: user_bot_route_def)
  have r2: "o3_route m w = handle_cancel m w" using assms nc by (simp add: o3_route_def)
  have h: "fst (handle_cancel m w) = None" "fsm (snd (handle_cancel m w)) = None"
    "data (snd (handle_cancel m w)) = no_data" "db (snd (handle_cancel m w)) = db w"
    "length (outbox (snd (handle_cancel m w))) = Suc (length (outbox w))"
    by (simp_all add: handle_cancel_eq)
  show ?thesis
    using r1 r2 h ex lo cf
    by (simp add: user_choosing_cake_def user_choosing_taste_def user_choosing_size_def
        user_choosing_decor_def user_confirming_order_def admin_process_update_status_def
        o3_user_choosing_cake_def o3_user_choosing_taste_def o3_user_choosing_size_def
        o3_user_choosing_decor_def o3_admin_process_update_status_def Let_def)
qed

theorem cancel_from_any_state_witness:
  "msg_text (text_from 7 CANCEL_TEXT) = CANCEL_TEXT \<and>
   fsm (world_in (Some ChoosingSize) half_draft one_order) = Some ChoosingSize \<and>
   data (world_in (Some ChoosingSize) half_draft one_order) \<noteq> no_data \<and>
   user_bot_route (text_from 7 CANCEL_TEXT) (world_in (Some ChoosingSize) half_draft one_order)
     = (None, \<lparr>db = one_order, fsm = None, data = no_data, outbox = [Answer Back_to_user_menu],
               ADMIN_IDS = [99], bot_username = asc ''cakebot''\<rparr>) \<and>
   o3_route (text_from 7 CANCEL_TEXT) (world_in (Some Confirming) full_draft one_order)
     = (None, \<lparr>db = one_order, fsm = None, data = no_data, outbox = [Answer Back_to_user_menu],
               ADMIN_IDS = [99], bot_username = asc ''cakebot''\<rparr>)"
proof -
  have t: "msg_text (text_from 7 CANCEL_TEXT) = CANCEL_TEXT" by (simp add: text_from_def)
  have c: "handle_cancel (text_from 7 CANCEL_TEXT) (world_in s d one_order)
     = (None, \<lparr>db = one_order, fsm = None, data = no_data, outbox = [Answer Back_to_user_menu],
               ADMIN_IDS = [99], bot_username = asc ''cakebot''\<rparr>)" for s d
    by (simp add: handle_cancel_def world_in_def text_from_def clear_def answer_def is_admin_def)
  have d: "data (world_in (Some ChoosingSize) half_draft one_order) \<noteq> no_data"
    by (simp add: world_in_def half_draft_def no_data_def)
  show ?thesis
    using cancel_from_any_state[OF t, of "world_in (Some ChoosingSize) half_draft one_order"]
      cancel_from_any_state[OF t, of "world_in (Some Confirming) full_draft one_order"] t c d
    by (simp add: world_in_def)
qed

section \<open>The size of the cake\<close>

lemma choose_size_eq:
  "choose_size m w =
     (if str_isdigit (str_strip (msg_text m))
      then (None, set_state ChoosingDecor
              (answer Ask_decor (w\<lparr>data := (data w)\<lparr>size_data := Some (str_strip (msg_text m))\<rparr>\<rparr>)))
      else (None, answer Need_number w))"
  by (simp add: choose_size_def Let_def)

lemma CANCEL_not_digits: "\<not> str_isdigit (str_strip CANCEL_TEXT)"
  by (simp add: CANCEL_no_space) (simp add: str_isdigit_def CANCEL_TEXT_def py_isdigit_def py_decimal_def
      decimal_ranges_def in_ranges_def digit_extra_ranges_def)

text \<open>
  C4 (as amended).  In \<open>ChoosingSize\<close>, for every text: \<^verbatim>\<open>process_choosing_size\<close>
  (combined\_bot.py) and \<^verbatim>\<open>user_choosing_size\<close> (user\_bot.py) move the session to
  \<open>ChoosingDecor\<close> exactly when the text, stripped of surrounding white space, is a
  non-empty string of digit characters, and then store the stripped text as the size;
  otherwise the draft is unchanged, and the session stays in \<open>ChoosingSize\<close> with the
  request for a number repeated, except that user\_bot.py treats the cancel text first and
  goes idle.  The store is never touched.
\<close>

theorem size_step:
  assumes "fsm w = Some ChoosingSize"
    and "h = process_choosing_size \<or> h = user_choosing_size"
  shows "fst (h m w) = None \<and> db (snd (h m w)) = db w \<and>
         (fsm (snd (h m w)) = Some ChoosingDecor \<longleftrightarrow> str_isdigit (str_strip (msg_text m))) \<and>
         (str_isdigit (str_strip (msg_text m)) \<longrightarrow>
            data (snd (h m w)) = (data w)\<lparr>size_data := Some (str_strip (msg_text m))\<rparr>) \<and>
         (\<not> str_isdigit (str_strip (msg_text m)) \<longrightarrow>
            (if h = user_choosing_size \<and> msg_text m = CANCEL_TEXT
             then h m w = handle_cancel m w
             else fsm (snd (h m w)) = Some ChoosingSize \<and> data (snd (h m w)) = data w \<and>
                  last (outbox (snd (h m w))) = Answer Need_number))"
proof -
  have ne: "process_choosing_size \<noteq> user_choosing_size"
  proof
    assume e: "process_choosing_size = user_choosing_size"
    have "fsm (snd (process_choosing_size (text_from 7 CANCEL_TEXT) (world_in (Some ChoosingSize) half_draft one_order)))
          = Some ChoosingSize"
      using CANCEL_not_digits
      by (simp add: process_choosing_size_def choose_size_eq text_from_def world_in_def warn_admin_def
          is_admin_def answer_def)
    moreover have "fsm (snd (user_choosing_size (text_from 7 CANCEL_TEXT) (world_in (Some ChoosingSize) half_draft one_order)))
          = None"
      by (simp add: user_choosing_size_def is_cancel_exact_def text_from_def handle_cancel_eq)
    ultimately show False using e by simp
  qed
  from assms(2) show ?thesis
  proof
    assume h: "h = process_choosing_size"
    show ?thesis using assms(1) ne
      by (simp add: h process_choosing_size_def choose_size_eq)
  next
    assume h: "h = user_choosing_size"
    show ?thesis
    proof (cases "msg_text m = CANCEL_TEXT")
      case True
      then show ?thesis using CANCEL_not_digits
        by (simp add: h user_choosing_size_def is_cancel_exact_def handle_cancel_eq)
    next
      case False
      then show ?thesis using assms(1)
        by (simp add: h user_choosing_size_def is_cancel_exact_def choose_size_eq)
    qed
  qed
qed

lemma isdigit_0: "str_isdigit (str_strip (asc ''0''))"
  by (simp add: asc_def str_strip_def space_eval str_isdigit_def py_isdigit_def py_decimal_ascii)

lemma strip_8: "str_strip (asc '' 8 '') = asc ''8''"
  by (simp add: asc_def str_strip_def space_eval)

lemma isdigit_8: "str_isdigit (asc ''8'')"
  by (simp add: asc_def str_isdigit_def py_isdigit_def py_decimal_ascii)

lemma not_digit_many: "\<not> str_isdigit (str_strip (asc ''many''))"
  by (simp add: asc_def str_strip_def space_eval str_isdigit_def py_isdigit_def py_decimal_def
      decimal_ranges_def digit_extra_ranges_def)

theorem size_step_witness:
  "fsm (world_in (Some ChoosingSize) half_draft one_order) = Some ChoosingSize \<and>
   snd (process_choosing_size (text_from 7 (asc '' 8 '')) (world_in (Some ChoosingSize) half_draft one_order))
     = \<lparr>db = one_order, fsm = Some ChoosingDecor, data = half_draft\<lparr>size_data := Some (asc ''8'')\<rparr>,
        outbox = [Answer Ask_decor], ADMIN_IDS = [99], bot_username = asc ''cakebot''\<rparr> \<and>
   snd (user_choosing_size (text_from 7 (asc ''many'')) (world_in (Some ChoosingSize) half_draft one_order))
     = \<lparr>db = one_order, fsm = Some ChoosingSize, data = half_draft,
        outbox = [Answer Need_number], ADMIN_IDS = [99], bot_username = asc ''cakebot''\<rparr>"
proof -
  have s: "fsm (world_in (Some ChoosingSize) half_draft one_order) = Some ChoosingSize"
    by (simp add: world_in_def)
  have a: "snd (process_choosing_size (text_from 7 (asc '' 8 '')) (world_in (Some ChoosingSize) half_draft one_order))
     = \<lparr>db = one_order, fsm = Some ChoosingDecor, data = half_draft\<lparr>size_data := Some (asc ''8'')\<rparr>,
        outbox = [Answer Ask_decor], ADMIN_IDS = [99], bot_username = asc ''cakebot''\<rparr>"
    using strip_8 isdigit_8
    by (simp add: process_choosing_size_def choose_size_eq text_from_def world_in_def warn_admin_def
        is_admin_def answer_def set_state_def)
  have b: "snd (user_choosing_size (text_from 7 (asc ''many'')) (world_in (Some ChoosingSize) half_draft one_order))
     = \<lparr>db = one_order, fsm = Some ChoosingSize, data = half_draft,
        outbox = [Answer Need_number], ADMIN_IDS = [99], bot_username = asc ''cakebot''\<rparr>"
    using not_digit_many
    by (simp add: user_choosing_size_def choose_size_eq text_from_def world_in_def is_cancel_exact_def
        answer_def) (simp add: asc_def CANCEL_TEXT_def)
  show ?thesis
    using size_step[OF s, of process_choosing_size "text_from 7 (asc '' 8 '')"]
      size_step[OF s, of user_choosing_size "text_from 7 (asc ''many'')"] a b s
    by simp
qed

text \<open>The claim as written asks for a positive integer: the text \<^verbatim>\<open>0\<close> is none, and the
  session moves on with it.\<close>

theorem size_zero_counterexample:
  "\<not> parses_as_positive_int (asc ''0'') \<and>
   fsm (snd (process_choosing_size (text_from 7 (asc ''0''))
               (world_in (Some ChoosingSize) half_draft one_order))) = Some ChoosingDecor \<and>
   size_data (data (snd (process_choosing_size (text_from 7 (asc ''0''))
               (world_in (Some ChoosingSize) half_draft one_order)))) = Some (asc ''0'')"
proof -
  have "py_int (asc ''0'') = Some 0" by (simp add: text_eval)
  then have p: "\<not> parses_as_positive_int (asc ''0'')" by (simp add: parses_as_positive_int_def)
  have "str_strip (asc ''0'') = asc ''0''" by (simp add: asc_def str_strip_def space_eval)
  then show ?thesis using p isdigit_0
    by (simp add: process_choosing_size_def choose_size_eq text_from_def world_in_def)
qed

section \<open>The operator's input\<close>

lemma update_logs:
  "length (logged (snd (update_order_status i s st))) = Suc (length (logged st))"
  by (simp add: update_order_status_def logging_def Let_def split: sum.splits option.splits)

lemma get_all_orders_logs:
  "length (logged (snd (get_all_orders st))) = Suc (length (logged st))"
  by (simp add: get_all_orders_def logging_def split: sum.splits)

lemma apply_update_logs:
  "length (logged (db w)) < length (logged (db (snd (apply_update a b i s w))))"
proof -
  define r where "r = update_order_status (PStr i) s (db w)"
  have l1: "length (logged (snd r)) = Suc (length (logged (db w)))" by (simp add: r_def update_logs)
  define w1 where "w1 = w\<lparr>db := snd r\<rparr>"
  have o: "on_db (update_order_status (PStr i) s) w = (fst r, w1)"
    by (simp add: on_db_def r_def w1_def split: prod.splits)
  show ?thesis
  proof (cases "fst r")
    case False
    then show ?thesis using o l1 by (simp add: apply_update_def w1_def)
  next
    case True
    define g where "g = get_all_orders (snd r)"
    have l2: "length (logged (snd g)) = Suc (Suc (length (logged (db w))))"
      by (simp add: g_def get_all_orders_logs l1)
    define w2 where "w2 = w1\<lparr>db := snd g\<rparr>"
    have o2: "on_db get_all_orders w1 = (fst g, w2)"
      by (simp add: on_db_def g_def w1_def w2_def split: prod.splits)
    have d2: "db w2 = snd g" by (simp add: w2_def)
    show ?thesis using True o o2 l2 d2
      by (auto simp: apply_update_def send_status_update_def logging_def
          split: sum.splits option.splits)
  qed
qed

lemma one_order_update:
  "update_order_status (PStr (asc ''1'')) (asc ''in oven'') one_order
     = (True, one_order\<lparr>orders := [ORDERS_HEADER,
       [asc ''1'', asc ''7'', asc ''ann'', asc ''Chocolate'', asc ''500'', asc ''dark'', asc ''8'',
        asc ''none'', asc ''in oven'', asc ''2024-01-05 10:00:00'']],
       logged := [Updated_order (asc ''1'') (asc ''in oven'')]\<rparr>)"
  apply (simp add: update_order_status_def one_order_def get_all_records_def ORDERS_HEADER_distinct
      row_values1_def Let_def logging_def)
  apply (simp add: ORDERS_HEADER_def record_of_def str_of_get_def update_cell_def set_cell_def)
  apply (simp add: asc_def numericise_def)
  apply (simp add: text_eval)
  done


lemma split1_empty: "str_split1 [] = []"
  by (simp add: str_split1_def)

text \<open>
  C7 (as amended).  In \<open>UpdatingOrderStatus\<close>, for every text sent by an operator, let
  \<open>parts\<close> be the stripped text split at its first run of white space.
  \<^verbatim>\<open>process_update_status\<close> (combined\_bot.py) and \<^verbatim>\<open>admin_process_update_status\<close> (o3.py)
  call \<^verbatim>\<open>update_order_status\<close>, with the first part as identifier and the whole rest as
  status, exactly when there are two parts and the first consists of digit characters;
  the call shows in the log.  For any other text the store and the data are unchanged,
  one of the fixed prompts is sent and the session stays in \<open>UpdatingOrderStatus\<close>, except
  that o3.py treats the cancel text first and goes idle.
\<close>

theorem update_input_step:
  assumes "is_admin w (from_user_id m)" and "fsm w = Some UpdatingOrderStatus"
    and "parts = str_split1 (str_strip (msg_text m))"
    and "valid \<longleftrightarrow> length parts = 2 \<and> str_isdigit (parts ! 0)"
  shows "(valid \<longrightarrow>
            process_update_status m w
              = apply_update id_is_index customer_index (parts ! 0) (parts ! 1) w \<and>
            length (logged (db w)) < length (logged (db (snd (process_update_status m w))))) \<and>
         (\<not> valid \<longrightarrow>
            fst (process_update_status m w) = None \<and>
            db (snd (process_update_status m w)) = db w \<and>
            data (snd (process_update_status m w)) = data w \<and>
            fsm (snd (process_update_status m w)) = Some UpdatingOrderStatus \<and>
            last (outbox (snd (process_update_status m w)))
              \<in> {Answer Ask_update_input, Answer Bad_format, Answer Id_must_be_number}) \<and>
         (valid \<and> \<not> is_cancel_lower m \<longrightarrow>
            o3_admin_process_update_status m w
              = apply_update id_is_get customer_get (parts ! 0) (parts ! 1) w \<and>
            length (logged (db w)) < length (logged (db (snd (o3_admin_process_update_status m w))))) \<and>
         (\<not> valid \<and> \<not> is_cancel_lower m \<longrightarrow>
            fst (o3_admin_process_update_status m w) = None \<and>
            db (snd (o3_admin_process_update_status m w)) = db w \<and>
            data (snd (o3_admin_process_update_status m w)) = data w \<and>
            fsm (snd (o3_admin_process_update_status m w)) = Some UpdatingOrderStatus \<and>
            last (outbox (snd (o3_admin_process_update_status m w)))
              \<in> {Answer Bad_format, Answer Id_must_be_number}) \<and>
         (is_cancel_lower m \<longrightarrow>
            o3_admin_process_update_status m w = handle_cancel m w \<and>
            db (snd (o3_admin_process_update_status m w)) = db w)"
proof (intro conjI impI)
  assume v: valid
  then have ne: "str_strip (msg_text m) \<noteq> []" using assms(3,4) split1_empty by auto
  show c: "process_update_status m w
              = apply_update id_is_index customer_index (parts ! 0) (parts ! 1) w"
    using v ne assms by (simp add: process_update_status_def update_from_parts_def Let_def)
  show "length (logged (db w)) < length (logged (db (snd (process_update_status m w))))"
    unfolding c by (rule apply_update_logs)
next
  assume nv: "\<not> valid"
  show "fst (process_update_status m w) = None"
    and "db (snd (process_update_status m w)) = db w"
    and "data (snd (process_update_status m w)) = data w"
    and "fsm (snd (process_update_status m w)) = Some UpdatingOrderStatus"
    and "last (outbox (snd (process_update_status m w)))
              \<in> {Answer Ask_update_input, Answer Bad_format, Answer Id_must_be_number}"
    using nv assms by (auto simp: process_update_status_def update_from_parts_def Let_def)
next
  assume v: "valid \<and> \<not> is_cancel_lower m"
  show c: "o3_admin_process_update_status m w
              = apply_update id_is_get customer_get (parts ! 0) (parts ! 1) w"
    using v assms by (simp add: o3_admin_process_update_status_def update_from_parts_def Let_def)
  show "length (logged (db w)) < length (logged (db (snd (o3_admin_process_update_status m w))))"
    unfolding c by (rule apply_update_logs)
next
  assume nv: "\<not> valid \<and> \<not> is_cancel_lower m"
  show "fst (o3_admin_process_update_status m w) = None"
    and "db (snd (o3_admin_process_update_status m w)) = db w"
    and "data (snd (o3_admin_process_update_status m w)) = data w"
    and "fsm (snd (o3_admin_process_update_status m w)) = Some UpdatingOrderStatus"
    and "last (outbox (snd (o3_admin_process_update_status m w)))
              \<in> {Answer Bad_format, Answer Id_must_be_number}"
    using nv assms by (auto simp: o3_admin_process_update_status_def update_from_parts_def Let_def)
next
  assume c: "is_cancel_lower m"
  show "o3_admin_process_update_status m w = handle_cancel m w"
    and "db (snd (o3_admin_process_update_status m w)) = db w"
    using c by (simp_all add: o3_admin_process_update_status_def handle_cancel_eq)
qed


lemma apply_update_orders:
  "orders (db (snd (apply_update a b i s w))) = orders (snd (update_order_status (PStr i) s (db w)))"
proof -
  define r where "r = update_order_status (PStr i) s (db w)"
  define w1 where "w1 = w\<lparr>db := snd r\<rparr>"
  have o: "on_db (update_order_status (PStr i) s) w = (fst r, w1)"
    by (simp add: on_db_def r_def w1_def split: prod.splits)
  show ?thesis
  proof (cases "fst r")
    case False
    then show ?thesis using o by (simp add: apply_update_def w1_def r_def)
  next
    case True
    define g where "g = get_all_orders (snd r)"
    have og: "orders (snd g) = orders (snd r)"
      by (simp add: g_def get_all_orders_def logging_def split: sum.splits)
    define w2 where "w2 = w1\<lparr>db := snd g\<rparr>"
    have o2: "on_db get_all_orders w1 = (fst g, w2)"
      by (simp add: on_db_def g_def w1_def w2_def split: prod.splits)
    have d2: "db w2 = snd g" by (simp add: w2_def)
    show ?thesis using True o o2 og d2
      by (auto simp: apply_update_def send_status_update_def logging_def r_def
          split: sum.splits option.splits)
  qed
qed

lemma parts_in_oven:
  "str_split1 (str_strip (asc ''1 in oven'')) = [asc ''1'', asc ''in oven'']"
  by (simp add: asc_def str_strip_def str_split1_def space_eval Let_def)

lemma parts_abc:
  "str_split1 (str_strip (asc ''abc Delivered'')) = [asc ''abc'', asc ''Delivered'']"
  by (simp add: asc_def str_strip_def str_split1_def space_eval Let_def)

lemma isdigit_1: "str_isdigit (asc ''1'')"
  by (simp add: asc_def str_isdigit_def py_isdigit_def py_decimal_ascii)

lemma not_digit_abc: "\<not> str_isdigit (asc ''abc'')"
  by (simp add: asc_def str_isdigit_def py_isdigit_def py_decimal_def
      decimal_ranges_def digit_extra_ranges_def in_ranges_def)

theorem update_input_step_witness:
  "is_admin (world_in (Some UpdatingOrderStatus) no_data one_order) (from_user_id (text_from 99 (asc ''1 in oven''))) \<and>
   str_split1 (str_strip (msg_text (text_from 99 (asc ''1 in oven'')))) = [asc ''1'', asc ''in oven''] \<and>
   process_update_status (text_from 99 (asc ''1 in oven'')) (world_in (Some UpdatingOrderStatus) no_data one_order)
     = apply_update id_is_index customer_index (asc ''1'') (asc ''in oven'')
         (world_in (Some UpdatingOrderStatus) no_data one_order) \<and>
   snd (process_update_status (text_from 99 (asc ''abc Delivered''))
          (world_in (Some UpdatingOrderStatus) no_data one_order))
     = \<lparr>db = one_order, fsm = Some UpdatingOrderStatus, data = no_data,
        outbox = [Answer Id_must_be_number], ADMIN_IDS = [99], bot_username = asc ''cakebot''\<rparr>"
proof -
  let ?w = "world_in (Some UpdatingOrderStatus) no_data one_order"
  have a: "is_admin ?w (from_user_id (text_from 99 t))" for t
    by (simp add: is_admin_def world_in_def text_from_def)
  have s: "fsm ?w = Some UpdatingOrderStatus" by (simp add: world_in_def)
  have p1: "[asc ''1'', asc ''in oven''] = str_split1 (str_strip (msg_text (text_from 99 (asc ''1 in oven''))))"
    by (simp add: text_from_def parts_in_oven)
  have v1: "True \<longleftrightarrow> length [asc ''1'', asc ''in oven''] = 2 \<and> str_isdigit ([asc ''1'', asc ''in oven''] ! 0)"
    by (simp add: isdigit_1)
  have b: "snd (process_update_status (text_from 99 (asc ''abc Delivered'')) ?w)
     = \<lparr>db = one_order, fsm = Some UpdatingOrderStatus, data = no_data,
        outbox = [Answer Id_must_be_number], ADMIN_IDS = [99], bot_username = asc ''cakebot''\<rparr>"
    using parts_abc not_digit_abc
    by (simp add: process_update_status_def update_from_parts_def Let_def text_from_def is_admin_def
        world_in_def answer_def) (simp add: asc_def str_strip_def space_eval)
  show ?thesis
    using update_input_step[OF a s p1 v1] a p1[symmetric] b by simp
qed

text \<open>The claim as written asks for exactly two tokens: \<^verbatim>\<open>1 in oven\<close> has three, and the
  status of order 1 is set to \<^verbatim>\<open>in oven\<close>.\<close>

theorem three_tokens_counterexample:
  "\<not> two_tokens_numeric_first (asc ''1 in oven'') \<and>
   orders (db (snd (process_update_status (text_from 99 (asc ''1 in oven''))
                      (world_in (Some UpdatingOrderStatus) no_data one_order)))) ! 1 ! 8
     = asc ''in oven'' \<and>
   orders one_order ! 1 ! 8 = INITIAL_STATUS"
proof -
  have t: "str_split (asc ''1 in oven'') = [asc ''1'', asc ''in'', asc ''oven'']"
    by (simp add: str_split_def asc_def space_eval)
  have n: "\<not> two_tokens_numeric_first (asc ''1 in oven'')"
    by (simp add: two_tokens_numeric_first_def t)
  have "process_update_status (text_from 99 (asc ''1 in oven'')) (world_in (Some UpdatingOrderStatus) no_data one_order)
     = apply_update id_is_index customer_index (asc ''1'') (asc ''in oven'')
         (world_in (Some UpdatingOrderStatus) no_data one_order)"
    using parts_in_oven isdigit_1
    by (simp add: process_update_status_def update_from_parts_def Let_def text_from_def is_admin_def
        world_in_def) (simp add: asc_def str_strip_def space_eval)
  then have "orders (db (snd (process_update_status (text_from 99 (asc ''1 in oven''))
                      (world_in (Some UpdatingOrderStatus) no_data one_order))))
     = orders (snd (update_order_status (PStr (asc ''1'')) (asc ''in oven'') one_order))"
    by (simp add: apply_update_orders world_in_def)
  then show ?thesis using n by (simp add: one_order_update) (simp add: one_order_def)
qed

section \<open>The role of the sender\<close>

lemma CAKES_HEADER_distinct: "distinct CAKES_HEADER"
  by (simp add: CAKES_HEADER_def asc_def)

lemma one_order_catalog:
  "get_catalog_of_cakes one_order
     = ([[(asc ''name'', PStr (asc ''Chocolate'')), (asc ''price'', PInt 500),
          (asc ''description'', PStr (asc ''dark'')), (asc ''photo'', PStr [])]],
        one_order\<lparr>logged := [Fetched_cakes 1]\<rparr>)"
  apply (simp add: get_catalog_of_cakes_def one_order_def get_all_records_def CAKES_HEADER_distinct
      logging_def)
  apply (simp add: CAKES_HEADER_def record_of_def)
  apply (simp add: asc_def numericise_def)
  apply (simp add: text_eval)
  done

text \<open>
  C8.  \<^verbatim>\<open>cmd_menu\<close> of combined\_bot.py, called by the operator 99 while the catalogue holds
  one cake: the denial is sent, and then the catalogue is fetched and shown and the session
  moves to \<open>ChoosingCake\<close>.  \<^verbatim>\<open>user_make_order\<close> of o3.py, on the same input, sends the
  denial and does nothing else.
\<close>

theorem operator_menu_runs:
  "is_admin (world_in None no_data one_order) (from_user_id (text_from 99 (asc ''/menu''))) \<and>
   cmd_menu (text_from 99 (asc ''/menu'')) (world_in None no_data one_order)
     = (None, \<lparr>db = one_order\<lparr>logged := [Fetched_cakes 1]\<rparr>, fsm = Some ChoosingCake,
               data = no_data,
               outbox = [Answer Admin_cannot_use,
                         Answer (Cake_card (PStr (asc ''Chocolate'')) (PInt 500) (PStr (asc ''dark''))),
                         Answer Ask_cake],
               ADMIN_IDS = [99], bot_username = asc ''cakebot''\<rparr>) \<and>
   o3_user_make_order (text_from 99 (asc ''/menu'')) (world_in None no_data one_order)
     = (None, \<lparr>db = one_order, fsm = None, data = no_data, outbox = [Answer Admin_cannot_use],
               ADMIN_IDS = [99], bot_username = asc ''cakebot''\<rparr>)"
  by (simp add: cmd_menu_def o3_user_make_order_def start_order_def warn_admin_def is_admin_def
      world_in_def text_from_def on_db_def one_order_catalog answer_def set_state_def
      cake_card_def field_index_def asc_def)

section \<open>Confirming the order\<close>

lemma notify_admins_Some [simp]:
  "db (notify_admins as (Some x) w) = db w"
  by (induction as arbitrary: w) simp_all













end
